theory Spec2Isabelle
  imports Complex_Main "HOL-Library.Multiset" "HOL-Library.Word"
begin

section \<open>Errors and call results\<close>

text \<open>
  Every \<open>throw\<close> and every rejected promise is a value \<open>Inl e\<close> of \<open>error + 'a\<close>.
  \<open>ValidatorNotFoundError\<close> is the class the module exports (its message embeds the
  validator id); \<open>TypeError\<close> is what JavaScript raises when \<open>returns![0]\<close> reads an
  index of \<open>undefined\<close> or a destructuring pattern meets \<open>undefined\<close>; \<open>Thrown\<close> is an
  error raised by a collaborator (the ledger gateway, algod, algosdk, a built-in), with its
  message.
\<close>

datatype error = ValidatorNotFoundError int | TypeError | Thrown string

text \<open>
  The \<open>returns\<close> field of a composer result: the array may be \<open>undefined\<close>, and so may each
  of its entries.
\<close>

type_synonym 'a returns = "'a option list option"

text \<open>\<open>result.returns?.[0]\<close>: \<open>undefined\<close> when the array or its first entry is.\<close>

definition firstReturn :: "'a returns \<Rightarrow> 'a option" where
  "firstReturn rs = (case rs of None \<Rightarrow> None | Some [] \<Rightarrow> None | Some (r # _) \<Rightarrow> r)"

text \<open>
  \<open>result.returns![0]\<close> followed by a use of the value as a tuple, an array or a number
  that has to be there: reading index 0 of \<open>undefined\<close> and destructuring \<open>undefined\<close>
  raise a TypeError.
\<close>

definition firstReturnStrict :: "'a returns \<Rightarrow> error + 'a" where
  "firstReturnStrict rs = (case firstReturn rs of None \<Rightarrow> Inl TypeError | Some r \<Rightarrow> Inr r)"

text \<open>
  \<open>await Promise.all(promises)\<close>: the array of the values, in the order of the promises,
  when all of them fulfil, and a rejection when one of them rejects. JavaScript rejects
  with the error of the promise that rejects first in time; the model takes the first one
  in array order, which is one of the possible outcomes and an error in every case.
\<close>

fun promiseAll :: "(error + 'a) list \<Rightarrow> error + 'a list" where
  "promiseAll [] = Inr []"
| "promiseAll (p # ps) =
     (case p of
        Inl e \<Rightarrow> Inl e
      | Inr v \<Rightarrow> (case promiseAll ps of Inl e \<Rightarrow> Inl e | Inr vs \<Rightarrow> Inr (v # vs)))"

section \<open>JavaScript numbers\<close>

text \<open>
  The numeric fields of the UI layer are JavaScript numbers (IEEE 754 doubles) obtained with
  \<open>Number(...)\<close> from the unsigned 64-bit integers (\<open>bigint\<close>) the contracts return. A
  double that holds an integer is modelled by that integer. Every integer below \<open>2 ^ 53\<close>
  in absolute value is a double; a larger one is rounded to 53 significant bits, to the
  nearest double and to the one with an even significand on a tie. The overflow to
  \<open>Infinity\<close> at \<open>2 ^ 1024\<close> is not modelled: sums of numbers that come from 64-bit values
  do not reach it in fewer than \<open>2 ^ 959\<close> additions.
\<close>

fun bitLength :: "nat \<Rightarrow> nat" where
  "bitLength m = (if m = 0 then 0 else Suc (bitLength (m div 2)))"

declare bitLength.simps [simp del]

definition toDouble :: "int \<Rightarrow> int" where
  "toDouble n =
     (if \<bar>n\<bar> < 2 ^ 53 then n
      else (let m = nat \<bar>n\<bar>;
                e = bitLength m - 53;
                q = m div 2 ^ e;
                r = m mod 2 ^ e;
                rounded = (if 2 ^ e < 2 * r \<or> (2 * r = 2 ^ e \<and> odd q) then q + 1 else q)
            in sgn n * int (rounded * 2 ^ e)))"

text \<open>\<open>Number(v)\<close> of a \<open>bigint\<close>, and \<open>a + b\<close> (also \<open>a += b\<close>) on two numbers.\<close>

definition NumberOfBigint :: "int \<Rightarrow> int" where
  "NumberOfBigint v = toDouble v"

definition plusNumber :: "int \<Rightarrow> int \<Rightarrow> int" where
  "plusNumber a b = toDouble (a + b)"


section \<open>Staking data (interfaces/staking, interfaces/validator)\<close>

record PoolInfo =
  poolAppId :: int
  totalStakers :: int
  totalAlgoStaked :: int

record ValidatorPoolKey =
  validatorId :: int
  poolId :: int
  poolAppId :: int

record StakerPoolData =
  account :: string
  balance :: int
  totalRewarded :: int
  rewardTokenBalance :: int
  entryTime :: int
  poolKey :: ValidatorPoolKey

record StakerValidatorData =
  validatorId :: int
  balance :: int
  totalRewarded :: int
  rewardTokenBalance :: int
  entryTime :: int
  pools :: "StakerPoolData list"

section \<open>The aggregation fold of fetchStakerValidatorData\<close>

text \<open>
  \<open>acc.find((data) => data.validatorId === validatorId)\<close> returns the first entry of the
  accumulator with the pool's validator id.
\<close>

definition findExisting :: "StakerValidatorData list \<Rightarrow> int \<Rightarrow> StakerValidatorData option" where
  "findExisting acc vid = find (\<lambda>data. StakerValidatorData.validatorId data = vid) acc"

text \<open>The branch \<open>if (existingData)\<close>: the five assignments to the entry that was found.\<close>

definition updateTotals :: "StakerValidatorData \<Rightarrow> StakerPoolData \<Rightarrow> StakerValidatorData" where
  "updateTotals existingData pool =
     existingData\<lparr>
       StakerValidatorData.balance :=
         plusNumber (StakerValidatorData.balance existingData) (StakerPoolData.balance pool),
       StakerValidatorData.totalRewarded :=
         plusNumber (StakerValidatorData.totalRewarded existingData)
           (StakerPoolData.totalRewarded pool),
       StakerValidatorData.rewardTokenBalance :=
         plusNumber (StakerValidatorData.rewardTokenBalance existingData)
           (StakerPoolData.rewardTokenBalance pool),
       StakerValidatorData.entryTime :=
         min (StakerValidatorData.entryTime existingData) (StakerPoolData.entryTime pool),
       pools := pools existingData @ [pool]\<rparr>"

text \<open>
  The entry found is an object of the accumulator array and is mutated in place: the
  accumulator keeps its order, and its first entry with that validator id is the updated one.
\<close>

fun mutateExisting :: "StakerValidatorData list \<Rightarrow> StakerPoolData \<Rightarrow> StakerValidatorData list" where
  "mutateExisting [] pool = []"
| "mutateExisting (data # acc) pool =
     (if StakerValidatorData.validatorId data = ValidatorPoolKey.validatorId (poolKey pool)
      then updateTotals data pool # acc
      else data # mutateExisting acc pool)"

text \<open>The branch \<open>else\<close>: the first pool of a validator seeds a new entry.\<close>

definition newEntry :: "StakerPoolData \<Rightarrow> StakerValidatorData" where
  "newEntry pool =
     \<lparr> StakerValidatorData.validatorId = ValidatorPoolKey.validatorId (poolKey pool),
       StakerValidatorData.balance = StakerPoolData.balance pool,
       StakerValidatorData.totalRewarded = StakerPoolData.totalRewarded pool,
       StakerValidatorData.rewardTokenBalance = StakerPoolData.rewardTokenBalance pool,
       StakerValidatorData.entryTime = StakerPoolData.entryTime pool,
       pools = [pool] \<rparr>"

definition reducer :: "StakerValidatorData list \<Rightarrow> StakerPoolData \<Rightarrow> StakerValidatorData list" where
  "reducer acc pool =
     (case findExisting acc (ValidatorPoolKey.validatorId (poolKey pool)) of
        Some existingData \<Rightarrow> mutateExisting acc pool
      | None \<Rightarrow> acc @ [newEntry pool])"

text \<open>\<open>allPools.reduce(..., [])\<close>\<close>

definition stakerValidatorData :: "StakerPoolData list \<Rightarrow> StakerValidatorData list" where
  "stakerValidatorData allPools = foldl reducer [] allPools"







section \<open>The batch loop of fetchValidators and fetchStakerValidatorData\<close>

text \<open>
  Both functions run the same loop:
  \<^verbatim>\<open>
  for (let i = 0; i < n; i += batchSize) {
    const batchPromises = Array.from({ length: Math.min(batchSize, n - i) },
                                     (_, index) => fetch(arg(i + index)))
    const batchResults = await Promise.all(batchPromises)
    all.push(...batchResults)
  }
  \<close>
  with \<open>arg(j) = poolKeys[j]\<close>, \<open>n = poolKeys.length\<close> in fetchStakerValidatorData and
  \<open>arg(j) = j + 1\<close>, \<open>n = numValidators\<close> in fetchValidators. \<open>Array.from\<close> creates
  (and so starts) every read of the batch before \<open>await\<close> suspends the loop; the next
  iteration runs only after \<open>Promise.all\<close> has fulfilled. The loop is modelled with the
  schedule it produces: \<open>Call k\<close> when the read with argument \<open>k\<close> is started,
  \<open>BatchDone\<close> when the \<open>await\<close> of a batch returns.
\<close>

datatype 'k event = Call 'k | BatchDone

abbreviation batchSize :: nat where
  "batchSize \<equiv> 10"

function batchLoop ::
  "(nat \<Rightarrow> 'k) \<Rightarrow> ('k \<Rightarrow> error + 'a) \<Rightarrow> nat \<Rightarrow> nat \<Rightarrow> 'k event list \<Rightarrow> 'a list
     \<Rightarrow> 'k event list \<times> (error + 'a list)" where
  "batchLoop arg fetch n i schedule allResults =
     (if i < n then
        let batchArgs = map (\<lambda>index. arg (i + index)) [0..<min batchSize (n - i)];
            schedule' = schedule @ map Call batchArgs
        in case promiseAll (map fetch batchArgs) of
             Inl e \<Rightarrow> (schedule', Inl e)
           | Inr batchResults \<Rightarrow>
               batchLoop arg fetch n (i + batchSize) (schedule' @ [BatchDone])
                 (allResults @ batchResults)
      else (schedule, Inr allResults))"
  by pat_completeness auto
termination
  by (relation "measure (\<lambda>(arg, fetch, n, i, schedule, allResults). n - i)") auto



section \<open>fetchValidator and fetchValidators\<close>

text \<open>
  The read-only calls of the registry client, each a simulate-only call that resolves to
  its \<open>returns\<close> or rejects. The raw tuple types of the config, the state, the payout
  ratios and the node assignment are declared in \<open>interfaces/validator\<close> and stay type
  parameters; the pool directory is an array of (poolAppId, totalStakers, totalAlgoStaked).
\<close>

type_synonym RawPoolsInfo = "(int \<times> int \<times> int) list"

record ('c, 's, 'r, 'n) ValidatorRegistryClient =
  getNumValidators :: "error + nat returns"
  getValidatorConfig :: "int \<Rightarrow> error + 'c returns"
  getValidatorState :: "int \<Rightarrow> error + 's returns"
  getPools :: "int \<Rightarrow> error + RawPoolsInfo returns"
  getTokenPayoutRatio :: "int \<Rightarrow> error + 'r returns"
  getNodePoolAssignments :: "int \<Rightarrow> error + 'n returns"
  getStakedPoolsForAccount :: "string \<Rightarrow> error + (int \<times> int \<times> int) list returns"

text \<open>
  \<open>fetchValidator\<close>: five reads under one \<open>Promise.all\<close>, \<open>returns?.[0]\<close> of each, and the
  test \<open>!rawConfig || !rawState || !rawPoolsInfo || !rawPoolTokenPayoutRatios ||
  !rawNodePoolAssignment\<close>. The raw values are arrays, which JavaScript counts as true
  (an empty array too), so each negation holds exactly when the value is \<open>undefined\<close>.
  A read that rejects makes \<open>Promise.all\<close> reject (the model takes the first one in
  array order). \<open>transformValidatorData\<close> lives in \<open>utils/contracts\<close> and is a parameter.
  The \<open>catch\<close> block logs and rethrows.
\<close>

definition fetchValidator ::
  "('c \<Rightarrow> 's \<Rightarrow> RawPoolsInfo \<Rightarrow> 'r \<Rightarrow> 'n \<Rightarrow> 'v) \<Rightarrow> ('c, 's, 'r, 'n) ValidatorRegistryClient
     \<Rightarrow> int \<Rightarrow> error + 'v" where
  "fetchValidator transformValidatorData validatorClient vid =
     (case getValidatorConfig validatorClient vid of
        Inl e \<Rightarrow> Inl e
      | Inr config \<Rightarrow>
     (case getValidatorState validatorClient vid of
        Inl e \<Rightarrow> Inl e
      | Inr state \<Rightarrow>
     (case getPools validatorClient vid of
        Inl e \<Rightarrow> Inl e
      | Inr validatorPoolData \<Rightarrow>
     (case getTokenPayoutRatio validatorClient vid of
        Inl e \<Rightarrow> Inl e
      | Inr poolTokenPayoutRatios \<Rightarrow>
     (case getNodePoolAssignments validatorClient vid of
        Inl e \<Rightarrow> Inl e
      | Inr nodePoolAssignments \<Rightarrow>
     (case (firstReturn config, firstReturn state, firstReturn validatorPoolData,
            firstReturn poolTokenPayoutRatios, firstReturn nodePoolAssignments) of
        (Some rawConfig, Some rawState, Some rawPoolsInfo, Some rawPoolTokenPayoutRatios,
         Some rawNodePoolAssignment) \<Rightarrow>
          Inr (transformValidatorData rawConfig rawState rawPoolsInfo
                 rawPoolTokenPayoutRatios rawNodePoolAssignment)
      | _ \<Rightarrow> Inl (ValidatorNotFoundError vid)))))))"

text \<open>
  \<open>fetchValidators\<close>: the count, \<open>[]\<close> when it is \<open>0\<close> or \<open>undefined\<close>, then the batch
  loop over the ids \<open>i + index + 1\<close>. \<open>fetchValidator\<close> resolves to a Validator or
  rejects, never to \<open>undefined\<close>, so the \<open>filter\<close> after \<open>Promise.all\<close> keeps every
  result.
\<close>

definition fetchValidators ::
  "('c \<Rightarrow> 's \<Rightarrow> RawPoolsInfo \<Rightarrow> 'r \<Rightarrow> 'n \<Rightarrow> 'v) \<Rightarrow> ('c, 's, 'r, 'n) ValidatorRegistryClient
     \<Rightarrow> int event list \<times> (error + 'v list)" where
  "fetchValidators transformValidatorData validatorClient =
     (case getNumValidators validatorClient of
        Inl e \<Rightarrow> ([], Inl e)
      | Inr numValidatorsResponse \<Rightarrow>
          (case numValidatorsResponse of
             None \<Rightarrow> ([], Inl TypeError)
           | Some _ \<Rightarrow>
               (case firstReturn numValidatorsResponse of
                  None \<Rightarrow> ([], Inr [])
                | Some numValidators \<Rightarrow>
                    if numValidators = 0 then ([], Inr [])
                    else batchLoop (\<lambda>j. int j + 1)
                           (fetchValidator transformValidatorData validatorClient)
                           numValidators 0 [] [])))"

section \<open>fetchStakerValidatorData\<close>

definition fetchStakedPoolsForAccount ::
  "('c, 's, 'r, 'n) ValidatorRegistryClient \<Rightarrow> string \<Rightarrow> error + ValidatorPoolKey list" where
  "fetchStakedPoolsForAccount validatorClient staker =
     (case getStakedPoolsForAccount validatorClient staker of
        Inl e \<Rightarrow> Inl e
      | Inr rs \<Rightarrow>
          (case firstReturnStrict rs of
             Inl e \<Rightarrow> Inl e
           | Inr stakedPools \<Rightarrow>
               Inr (map (\<lambda>(vid, pid, appId).
                      \<lparr> ValidatorPoolKey.validatorId = NumberOfBigint vid,
                        poolId = NumberOfBigint pid,
                        poolAppId = NumberOfBigint appId \<rparr>) stakedPools)))"

text \<open>
  \<open>getStakerInfo\<close> of the staking pool with a given app id: (account, balance,
  totalRewarded, rewardTokenBalance, entryTime).
\<close>

type_synonym StakingPoolReads =
  "int \<Rightarrow> string \<Rightarrow> error + (string \<times> int \<times> int \<times> int \<times> int) returns"

definition fetchStakerPoolData ::
  "StakingPoolReads \<Rightarrow> ValidatorPoolKey \<Rightarrow> string \<Rightarrow> error + StakerPoolData" where
  "fetchStakerPoolData getStakerInfo key staker =
     (case getStakerInfo (poolAppId key) staker of
        Inl e \<Rightarrow> Inl e
      | Inr rs \<Rightarrow>
          (case firstReturnStrict rs of
             Inl e \<Rightarrow> Inl e
           | Inr (acct, bal, rewarded, tokenBal, entered) \<Rightarrow>
               Inr \<lparr> account = acct, StakerPoolData.balance = NumberOfBigint bal,
                     StakerPoolData.totalRewarded = NumberOfBigint rewarded,
                     StakerPoolData.rewardTokenBalance = NumberOfBigint tokenBal,
                     StakerPoolData.entryTime = NumberOfBigint entered, poolKey = key \<rparr>))"

definition fetchStakerValidatorData ::
  "('c, 's, 'r, 'n) ValidatorRegistryClient \<Rightarrow> StakingPoolReads \<Rightarrow> string
     \<Rightarrow> ValidatorPoolKey event list \<times> (error + StakerValidatorData list)" where
  "fetchStakerValidatorData validatorClient getStakerInfo staker =
     (case fetchStakedPoolsForAccount validatorClient staker of
        Inl e \<Rightarrow> ([], Inl e)
      | Inr poolKeys \<Rightarrow>
          (case batchLoop (\<lambda>j. poolKeys ! j)
                  (\<lambda>key. fetchStakerPoolData getStakerInfo key staker)
                  (length poolKeys) 0 [] [] of
             (schedule, Inl e) \<Rightarrow> (schedule, Inl e)
           | (schedule, Inr allPools) \<Rightarrow> (schedule, Inr (stakerValidatorData allPools))))"

section \<open>Transaction groups and the ledger gateway\<close>

text \<open>
  A sender is an address with a signer: \<open>algosdk.makeEmptyTransactionSigner()\<close> in the
  simulate clients, the wallet's signer in the real ones.
\<close>

datatype TransactionSigner = EmptyTransactionSigner | WalletSigner

record SenderAccount =
  addr :: string
  signer :: TransactionSigner

datatype SuggestedParams = SuggestedParams (firstRound: nat) (lastRound: nat)

text \<open>
  A payment made by \<open>algosdk.makePaymentTxnWithSuggestedParamsFromObject\<close>. Its \<open>group\<close>
  is \<open>undefined\<close> until a composer builds a group that contains it.
\<close>

record PaymentTxn =
  payFrom :: string
  payTo :: string
  amount :: int
  suggestedParams :: SuggestedParams
  group :: "nat option"

text \<open>The argument \<open>{ transaction, signer: { addr, signer } }\<close> of a call that takes a payment.\<close>

record TransactionWithSigner =
  transaction :: PaymentTxn
  txnSigner :: SenderAccount

type_synonym byte = "8 word"

text \<open>
  The form values \<open>addValidator\<close> reads by name and the config tuple it sends. The other
  twelve fields of the config are \<open>Number(...)\<close> and \<open>BigInt(...)\<close> conversions of the
  other form values and constants; they are computed once, before the first phase, and are
  carried as one component.
\<close>

record 'i ValidatorConfigInput =
  owner :: string
  manager :: string
  nfdForInfo :: "string option"
  entryGatingType :: "string option"
  entryGatingValue :: "string option"
  otherValues :: 'i

record 'r ValidatorConfig =
  id :: int
  owner :: string
  manager :: string
  nfdForInfo :: int
  entryGatingType :: "rat option"
  entryGatingValue :: "byte list"
  otherFields :: 'r

datatype AppId = RetiApp | PoolApp int

datatype 'r MethodCall =
    gas
  | addValidatorCall TransactionWithSigner string "'r ValidatorConfig"
  | addStakeCall TransactionWithSigner int int
  | removeStakeCall int
  | epochBalanceUpdateCall
  | claimTokensCall

text \<open>
  One call of a composer: the application, the sender of the client that adds it, the
  method with its arguments, and the \<open>note\<close> and \<open>sendParams.fee\<close> it is given
  (\<open>None\<close> when the code passes none). A fee is \<open>AlgoAmount.MicroAlgos(x)\<close> for a
  JavaScript number \<open>x\<close>, which need not be an integer.
\<close>

record 'r AppCall =
  appId :: AppId
  sender :: SenderAccount
  call :: "'r MethodCall"
  txnNote :: "string option"
  fee :: "rat option"

datatype ABIValue = Uint int | Tuple "ABIValue list"

text \<open>
  What a resolved simulation reports for the group (\<open>simulateResponse.txnGroups[0]\<close>): the
  budget added, and a failure message when a transaction of the group failed, as a
  rejection by the contract logic does. The operations read \<open>appBudgetAdded\<close> only.
\<close>

record SimulateResult =
  appBudgetAdded :: nat
  failureMessage :: "string option"

text \<open>
  The ledger gateway and algod. \<open>simulate\<close> and \<open>execute\<close> take a group and resolve or
  reject; a simulation rejects when the request itself fails and resolves, with a
  \<open>failureMessage\<close>, when the group ran and failed. \<open>assignGroupID\<close> is the group id a
  composer gives the transactions of a group when it builds it.
\<close>

record 'r LedgerGateway =
  getAppReference :: "error + string"
  getMbrAmounts :: "string \<Rightarrow> error + (int \<times> int \<times> int \<times> int) returns"
  getTransactionParams :: "error + SuggestedParams"
  assignGroupID :: "'r AppCall list \<Rightarrow> nat"
  simulate :: "'r AppCall list \<Rightarrow> error + SimulateResult"
  execute :: "'r AppCall list \<Rightarrow> error + ABIValue returns"

text \<open>What an operation asked of the gateway, in order.\<close>

datatype 'r GatewayCall = Simulate "'r AppCall list" | Execute "'r AppCall list"

text \<open>
  Building a group writes the group id into every transaction object of the group. The app
  calls are made anew by each composer; a payment is made by the caller and handed in, so it
  keeps the id.
\<close>

fun setPaymentGroup :: "nat option \<Rightarrow> 'r MethodCall \<Rightarrow> 'r MethodCall" where
  "setPaymentGroup g (addValidatorCall mbrPayment nfdName config) =
     addValidatorCall (mbrPayment\<lparr>transaction := (transaction mbrPayment)\<lparr>group := g\<rparr>\<rparr>)
       nfdName config"
| "setPaymentGroup g (addStakeCall stakedAmountPayment vid valueToVerify) =
     addStakeCall
       (stakedAmountPayment\<lparr>transaction := (transaction stakedAmountPayment)\<lparr>group := g\<rparr>\<rparr>)
       vid valueToVerify"
| "setPaymentGroup g c = c"

definition buildGroup :: "'r LedgerGateway \<Rightarrow> 'r AppCall list \<Rightarrow> 'r AppCall list" where
  "buildGroup gateway calls =
     map (\<lambda>c. c\<lparr>call := setPaymentGroup (Some (assignGroupID gateway calls)) (call c)\<rparr>) calls"

text \<open>The payment object after a composer has built a group with it.\<close>

definition grouped :: "'r LedgerGateway \<Rightarrow> 'r AppCall list \<Rightarrow> PaymentTxn \<Rightarrow> PaymentTxn" where
  "grouped gateway calls payment = payment\<lparr>group := Some (assignGroupID gateway calls)\<rparr>"

definition FEE_SINK :: string where
  "FEE_SINK = ''A7NMWS3NT3IUDMLVO26ULGXGIIOUQ3ND2TXSER6EBGRZNOBOUIQXHIBGDE''"

text \<open>The senders of the four client factories.\<close>

definition makeSimulateValidatorClient :: "string \<Rightarrow> SenderAccount" where
  "makeSimulateValidatorClient senderAddr =
     \<lparr> addr = (if senderAddr = [] then FEE_SINK else senderAddr),
       signer = EmptyTransactionSigner \<rparr>"

definition makeValidatorClient :: "string \<Rightarrow> SenderAccount" where
  "makeValidatorClient activeAddress = \<lparr> addr = activeAddress, signer = WalletSigner \<rparr>"

definition makeSimulateStakingPoolClient :: "string \<Rightarrow> SenderAccount" where
  "makeSimulateStakingPoolClient senderAddr =
     \<lparr> addr = senderAddr, signer = EmptyTransactionSigner \<rparr>"

definition makeStakingPoolClient :: "string \<Rightarrow> SenderAccount" where
  "makeStakingPoolClient activeAddress = \<lparr> addr = activeAddress, signer = WalletSigner \<rparr>"

section \<open>The gating value of addValidator\<close>

text \<open>
  Modelled from the spec: \<open>gatingValueFromBigint\<close> is imported from \<open>utils/bytes\<close>, which
  is not among the sources. The specification says that every gating type other than
  asset-by-creator-account encodes "a numeric id/amount as a fixed-width big-endian byte
  string"; it does not give the width, which is a parameter here. The most significant
  byte comes first; a value that does not fit keeps its low \<open>width\<close> bytes.
\<close>

fun gatingValueFromBigint :: "nat \<Rightarrow> int \<Rightarrow> byte list" where
  "gatingValueFromBigint 0 v = []"
| "gatingValueFromBigint (Suc width) v = gatingValueFromBigint width (v div 256) @ [word_of_int v]"

text \<open>The number a byte string denotes when read big-endian.\<close>

definition bigEndianValue :: "byte list \<Rightarrow> int" where
  "bigEndianValue bytes = foldl (\<lambda>acc b. acc * 256 + uint b) 0 bytes"

text \<open>
  What \<open>addValidator\<close> takes from outside the module: the built-ins \<open>Number\<close> and
  \<open>BigInt\<close> on strings (\<open>None\<close> is \<open>NaN\<close>; \<open>BigInt\<close> throws on a string that is no
  integer), \<open>algosdk.decodeAddress(...).publicKey\<close> (which throws on a malformed address, and
  is handed \<open>undefined\<close> when the form value is), the width of
  \<open>gatingValueFromBigint\<close>, and the conversion of the other form values.
\<close>

record ('i, 'r) Imports =
  Number_of :: "string \<Rightarrow> rat option"
  BigInt_of :: "string \<Rightarrow> error + int"
  decodeAddress :: "string option \<Rightarrow> error + byte list"
  gatingValueWidth :: nat
  convertOthers :: "'i \<Rightarrow> error + 'r"

text \<open>\<open>Number(values.entryGatingType || 0)\<close>: \<open>undefined\<close> and the empty string give 0.\<close>

definition entryGatingTypeOf :: "('i, 'r) Imports \<Rightarrow> 'i ValidatorConfigInput \<Rightarrow> rat option" where
  "entryGatingTypeOf js values =
     (case ValidatorConfigInput.entryGatingType values of
        None \<Rightarrow> Some 0
      | Some s \<Rightarrow> if s = [] then Some 0 else Number_of js s)"

text \<open>
  \<^verbatim>\<open>
  entryGatingType == 1
    ? algosdk.decodeAddress(values.entryGatingValue!).publicKey
    : gatingValueFromBigint(BigInt(values.entryGatingValue!))
  \<close>
  \<open>BigInt(undefined)\<close> is a TypeError.
\<close>

definition entryGatingValueOf ::
  "('i, 'r) Imports \<Rightarrow> 'i ValidatorConfigInput \<Rightarrow> error + byte list" where
  "entryGatingValueOf js values =
     (if entryGatingTypeOf js values = Some 1
      then decodeAddress js (ValidatorConfigInput.entryGatingValue values)
      else (case ValidatorConfigInput.entryGatingValue values of
              None \<Rightarrow> Inl TypeError
            | Some s \<Rightarrow>
                (case BigInt_of js s of
                   Inl e \<Rightarrow> Inl e
                 | Inr v \<Rightarrow> Inr (gatingValueFromBigint (gatingValueWidth js) v))))"

definition makeValidatorConfig ::
  "('i, 'r) Imports \<Rightarrow> 'i ValidatorConfigInput \<Rightarrow> int \<Rightarrow> error + 'r ValidatorConfig" where
  "makeValidatorConfig js values nfdAppId =
     (case entryGatingValueOf js values of
        Inl e \<Rightarrow> Inl e
      | Inr gatingValue \<Rightarrow>
          (case convertOthers js (otherValues values) of
             Inl e \<Rightarrow> Inl e
           | Inr others \<Rightarrow>
               Inr \<lparr> id = 0,
                     owner = ValidatorConfigInput.owner values,
                     manager = ValidatorConfigInput.manager values,
                     nfdForInfo = nfdAppId,
                     entryGatingType = entryGatingTypeOf js values,
                     entryGatingValue = gatingValue,
                     otherFields = others \<rparr>))"

section \<open>Fees of the second phase\<close>

text \<open>
  The five \<open>feesAmount\<close> expressions, as functions of \<open>appBudgetAdded\<close>, a non-negative
  integer. Three of them are \<open>1000 * Math.floor((appBudgetAdded + 699) / 700)\<close>; the other
  two are \<open>2000 + 1000 * (appBudgetAdded / 700)\<close> and
  \<open>3000 + 1000 * (appBudgetAdded / 700)\<close>, with no rounding. \<open>/\<close> is the division of
  JavaScript numbers and is modelled by the exact quotient of rationals. The double that
  JavaScript computes is the nearest one to the exact quotient: it is the exact quotient
  whenever 175 divides the budget (the quotient is then a multiple of \<open>1/4\<close>), and for the
  budgets a transaction group can have its \<open>Math.floor\<close> is the one of the exact quotient.
\<close>

definition addValidator_feesAmount :: "nat \<Rightarrow> rat" where
  "addValidator_feesAmount budget = 1000 * of_int \<lfloor>(of_nat budget + 699) / (700 :: rat)\<rfloor>"

definition addStake_feesAmount :: "nat \<Rightarrow> rat" where
  "addStake_feesAmount budget = 2000 + 1000 * (of_nat budget / 700)"

definition removeStake_feesAmount :: "nat \<Rightarrow> rat" where
  "removeStake_feesAmount budget = 1000 * of_int \<lfloor>(of_nat budget + 699) / (700 :: rat)\<rfloor>"

definition epochBalanceUpdate_feesAmount :: "nat \<Rightarrow> rat" where
  "epochBalanceUpdate_feesAmount budget = 3000 + 1000 * (of_nat budget / 700)"

definition claimTokens_feesAmount :: "nat \<Rightarrow> rat" where
  "claimTokens_feesAmount budget = 1000 * of_int \<lfloor>(of_nat budget + 699) / (700 :: rat)\<rfloor>"

text \<open>Reading the values an executed group returns.\<close>

definition returnAt :: "'a returns \<Rightarrow> nat \<Rightarrow> error + 'a option" where
  "returnAt rs k =
     (case rs of
        None \<Rightarrow> Inl TypeError
      | Some xs \<Rightarrow> Inr (if k < length xs then xs ! k else None))"

text \<open>
  \<open>Number(v)\<close> of a returned value. The methods read here return unsigned integers
  (\<open>bigint\<close>); \<open>Number(undefined)\<close> is \<open>NaN\<close>, modelled by \<open>None\<close>, which is also the
  model's answer for a tuple.
\<close>

definition NumberOfABI :: "ABIValue option \<Rightarrow> int option" where
  "NumberOfABI v = (case v of Some (Uint n) \<Rightarrow> Some (NumberOfBigint n) | _ \<Rightarrow> None)"

section \<open>The two-phase operations\<close>

text \<open>
  Each operation returns the gateway calls it made for its own group, in order, and its
  outcome. \<open>Simulate\<close> records the group as the composer of the first phase built it (the
  payment carries that group's id); \<open>Execute\<close> records the group as the code hands it to
  the composer of the second phase. The reads that come before the first phase
  (\<open>getAppReference\<close>, \<open>getMbrAmounts\<close>, \<open>getTransactionParams\<close>) are not recorded. An
  \<open>await\<close> that rejects leaves the function at once; only \<open>epochBalanceUpdate\<close> has a
  \<open>catch\<close>, which logs and rethrows. The literal of the group is written out twice in
  each function, once per phase, and so it is here.
\<close>

definition addValidator ::
  "'r LedgerGateway \<Rightarrow> ('i, 'r) Imports \<Rightarrow> 'i ValidatorConfigInput \<Rightarrow> int \<Rightarrow> string
     \<Rightarrow> 'r GatewayCall list \<times> (error + int option)" where
  "addValidator gateway js values nfdAppId activeAddress =
     (case getAppReference gateway of
        Inl e \<Rightarrow> ([], Inl e)
      | Inr appAddress \<Rightarrow>
     (case getMbrAmounts gateway activeAddress of
        Inl e \<Rightarrow> ([], Inl e)
      | Inr mbrReturns \<Rightarrow>
     (case firstReturnStrict mbrReturns of
        Inl e \<Rightarrow> ([], Inl e)
      | Inr (validatorMbr, poolMbr, poolInitMbr, stakerMbr) \<Rightarrow>
     (case getTransactionParams gateway of
        Inl e \<Rightarrow> ([], Inl e)
      | Inr params \<Rightarrow>
     (let payValidatorMbr =
            \<lparr> payFrom = activeAddress, payTo = appAddress,
              amount = NumberOfBigint validatorMbr,
              suggestedParams = params, group = None \<rparr>
      in
     (case makeValidatorConfig js values nfdAppId of
        Inl e \<Rightarrow> ([], Inl e)
      | Inr validatorConfig \<Rightarrow>
     (let nfdName = (case ValidatorConfigInput.nfdForInfo values of None \<Rightarrow> [] | Some n \<Rightarrow> n);
          simulateGroup =
            [\<lparr> appId = RetiApp,
               sender = makeSimulateValidatorClient activeAddress,
               call = addValidatorCall
                        \<lparr> transaction = payValidatorMbr,
                          txnSigner = \<lparr> addr = activeAddress, signer = EmptyTransactionSigner \<rparr> \<rparr>
                        nfdName validatorConfig,
               txnNote = None,
               fee = Some 240000 \<rparr>];
          simulated = buildGroup gateway simulateGroup
      in
     (case simulate gateway simulated of
        Inl e \<Rightarrow> ([Simulate simulated], Inl e)
      | Inr simulateResult \<Rightarrow>
     (let payValidatorMbr' = (grouped gateway simulateGroup payValidatorMbr)\<lparr>group := None\<rparr>;
          feesAmount = addValidator_feesAmount (appBudgetAdded simulateResult);
          executeGroup =
            [\<lparr> appId = RetiApp,
               sender = makeValidatorClient activeAddress,
               call = addValidatorCall
                        \<lparr> transaction = payValidatorMbr',
                          txnSigner = \<lparr> addr = activeAddress, signer = WalletSigner \<rparr> \<rparr>
                        nfdName validatorConfig,
               txnNote = None,
               fee = Some feesAmount \<rparr>]
      in
     (case execute gateway executeGroup of
        Inl e \<Rightarrow> ([Simulate simulated, Execute executeGroup], Inl e)
      | Inr rs \<Rightarrow>
          ([Simulate simulated, Execute executeGroup],
           (case returnAt rs 0 of Inl e \<Rightarrow> Inl e | Inr v \<Rightarrow> Inr (NumberOfABI v)))))))))))))"

text \<open>
  \<open>const [valId, poolId, poolAppId] = results.returns![1]\<close>: a TypeError unless the value
  is a tuple; a missing component is \<open>undefined\<close>.
\<close>

definition destructurePoolKey ::
  "ABIValue option \<Rightarrow> error + (int option \<times> int option \<times> int option)" where
  "destructurePoolKey v =
     (case v of
        Some (Tuple xs) \<Rightarrow>
          Inr (NumberOfABI (if 0 < length xs then Some (xs ! 0) else None),
               NumberOfABI (if 1 < length xs then Some (xs ! 1) else None),
               NumberOfABI (if 2 < length xs then Some (xs ! 2) else None))
      | _ \<Rightarrow> Inl TypeError)"

text \<open>The outcome of \<open>addStake\<close> is (validatorId, poolId, poolAppId).\<close>

definition addStake ::
  "'r LedgerGateway \<Rightarrow> int \<Rightarrow> int \<Rightarrow> int \<Rightarrow> string
     \<Rightarrow> 'r GatewayCall list \<times> (error + (int option \<times> int option \<times> int option))" where
  "addStake gateway vid stakeAmount valueToVerify activeAddress =
     (case getAppReference gateway of
        Inl e \<Rightarrow> ([], Inl e)
      | Inr appAddress \<Rightarrow>
     (case getTransactionParams gateway of
        Inl e \<Rightarrow> ([], Inl e)
      | Inr params \<Rightarrow>
     (let stakeTransferPayment =
            \<lparr> payFrom = activeAddress, payTo = appAddress, amount = stakeAmount,
              suggestedParams = params, group = None \<rparr>;
          simulateGroup =
            [\<lparr> appId = RetiApp, sender = makeSimulateValidatorClient activeAddress,
               call = gas, txnNote = None, fee = None \<rparr>,
             \<lparr> appId = RetiApp, sender = makeSimulateValidatorClient activeAddress,
               call = addStakeCall
                        \<lparr> transaction = stakeTransferPayment,
                          txnSigner = \<lparr> addr = activeAddress, signer = EmptyTransactionSigner \<rparr> \<rparr>
                        vid valueToVerify,
               txnNote = None, fee = Some 240000 \<rparr>];
          simulated = buildGroup gateway simulateGroup
      in
     (case simulate gateway simulated of
        Inl e \<Rightarrow> ([Simulate simulated], Inl e)
      | Inr simulateResults \<Rightarrow>
     (let stakeTransferPayment' =
            (grouped gateway simulateGroup stakeTransferPayment)\<lparr>group := None\<rparr>;
          feesAmount = addStake_feesAmount (appBudgetAdded simulateResults);
          executeGroup =
            [\<lparr> appId = RetiApp, sender = makeValidatorClient activeAddress,
               call = gas, txnNote = None, fee = None \<rparr>,
             \<lparr> appId = RetiApp, sender = makeValidatorClient activeAddress,
               call = addStakeCall
                        \<lparr> transaction = stakeTransferPayment',
                          txnSigner = \<lparr> addr = activeAddress, signer = WalletSigner \<rparr> \<rparr>
                        vid valueToVerify,
               txnNote = None, fee = Some feesAmount \<rparr>]
      in
     (case execute gateway executeGroup of
        Inl e \<Rightarrow> ([Simulate simulated, Execute executeGroup], Inl e)
      | Inr rs \<Rightarrow>
          ([Simulate simulated, Execute executeGroup],
           (case returnAt rs 1 of Inl e \<Rightarrow> Inl e | Inr v \<Rightarrow> destructurePoolKey v))))))))"

definition removeStake ::
  "'r LedgerGateway \<Rightarrow> int \<Rightarrow> int \<Rightarrow> string \<Rightarrow> 'r GatewayCall list \<times> (error + unit)" where
  "removeStake gateway poolApp amountToUnstake activeAddress =
     (let simulateGroup =
            [\<lparr> appId = PoolApp poolApp, sender = makeSimulateStakingPoolClient activeAddress,
               call = gas, txnNote = Some ''1'', fee = Some 0 \<rparr>,
             \<lparr> appId = PoolApp poolApp, sender = makeSimulateStakingPoolClient activeAddress,
               call = gas, txnNote = Some ''2'', fee = Some 0 \<rparr>,
             \<lparr> appId = PoolApp poolApp, sender = makeSimulateStakingPoolClient activeAddress,
               call = removeStakeCall amountToUnstake, txnNote = None, fee = Some 240000 \<rparr>];
          simulated = buildGroup gateway simulateGroup
      in
     (case simulate gateway simulated of
        Inl e \<Rightarrow> ([Simulate simulated], Inl e)
      | Inr simulateResult \<Rightarrow>
     (let feesAmount = removeStake_feesAmount (appBudgetAdded simulateResult);
          executeGroup =
            [\<lparr> appId = PoolApp poolApp, sender = makeStakingPoolClient activeAddress,
               call = gas, txnNote = Some ''1'', fee = Some 0 \<rparr>,
             \<lparr> appId = PoolApp poolApp, sender = makeStakingPoolClient activeAddress,
               call = gas, txnNote = Some ''2'', fee = Some 0 \<rparr>,
             \<lparr> appId = PoolApp poolApp, sender = makeStakingPoolClient activeAddress,
               call = removeStakeCall amountToUnstake, txnNote = None, fee = Some feesAmount \<rparr>]
      in
     (case execute gateway executeGroup of
        Inl e \<Rightarrow> ([Simulate simulated, Execute executeGroup], Inl e)
      | Inr rs \<Rightarrow> ([Simulate simulated, Execute executeGroup], Inr ())))))"

definition epochBalanceUpdate ::
  "'r LedgerGateway \<Rightarrow> int \<Rightarrow> string \<Rightarrow> 'r GatewayCall list \<times> (error + unit)" where
  "epochBalanceUpdate gateway poolApp activeAddress =
     (let simulateGroup =
            [\<lparr> appId = PoolApp poolApp, sender = makeSimulateStakingPoolClient activeAddress,
               call = gas, txnNote = Some ''1'', fee = None \<rparr>,
             \<lparr> appId = PoolApp poolApp, sender = makeSimulateStakingPoolClient activeAddress,
               call = gas, txnNote = Some ''2'', fee = None \<rparr>,
             \<lparr> appId = PoolApp poolApp, sender = makeSimulateStakingPoolClient activeAddress,
               call = epochBalanceUpdateCall, txnNote = None, fee = Some 240000 \<rparr>];
          simulated = buildGroup gateway simulateGroup
      in
     (case simulate gateway simulated of
        Inl e \<Rightarrow> ([Simulate simulated], Inl e)
      | Inr simulateResult \<Rightarrow>
     (let feesAmount = epochBalanceUpdate_feesAmount (appBudgetAdded simulateResult);
          executeGroup =
            [\<lparr> appId = PoolApp poolApp, sender = makeStakingPoolClient activeAddress,
               call = gas, txnNote = Some ''1'', fee = Some 0 \<rparr>,
             \<lparr> appId = PoolApp poolApp, sender = makeStakingPoolClient activeAddress,
               call = gas, txnNote = Some ''2'', fee = Some 0 \<rparr>,
             \<lparr> appId = PoolApp poolApp, sender = makeStakingPoolClient activeAddress,
               call = epochBalanceUpdateCall, txnNote = None, fee = Some feesAmount \<rparr>]
      in
     (case execute gateway executeGroup of
        Inl e \<Rightarrow> ([Simulate simulated, Execute executeGroup], Inl e)
      | Inr rs \<Rightarrow> ([Simulate simulated, Execute executeGroup], Inr ())))))"

text \<open>
  \<open>claimTokens\<close> fills one composer with three calls per pool, in the order of \<open>pools\<close>:
  the loop body of the first phase, and the one of the second phase with its fee.
\<close>

definition claimTokens_simulateCalls :: "string \<Rightarrow> PoolInfo \<Rightarrow> 'r AppCall list" where
  "claimTokens_simulateCalls activeAddress pool =
     [\<lparr> appId = PoolApp (PoolInfo.poolAppId pool),
        sender = makeSimulateStakingPoolClient activeAddress,
        call = gas, txnNote = Some ''1'', fee = Some 0 \<rparr>,
      \<lparr> appId = PoolApp (PoolInfo.poolAppId pool),
        sender = makeSimulateStakingPoolClient activeAddress,
        call = gas, txnNote = Some ''2'', fee = Some 0 \<rparr>,
      \<lparr> appId = PoolApp (PoolInfo.poolAppId pool),
        sender = makeSimulateStakingPoolClient activeAddress,
        call = claimTokensCall, txnNote = None, fee = Some 240000 \<rparr>]"

definition claimTokens_executeCalls :: "string \<Rightarrow> rat \<Rightarrow> PoolInfo \<Rightarrow> 'r AppCall list" where
  "claimTokens_executeCalls activeAddress feesAmount pool =
     [\<lparr> appId = PoolApp (PoolInfo.poolAppId pool),
        sender = makeStakingPoolClient activeAddress,
        call = gas, txnNote = Some ''1'', fee = Some 0 \<rparr>,
      \<lparr> appId = PoolApp (PoolInfo.poolAppId pool),
        sender = makeStakingPoolClient activeAddress,
        call = gas, txnNote = Some ''2'', fee = Some 0 \<rparr>,
      \<lparr> appId = PoolApp (PoolInfo.poolAppId pool),
        sender = makeStakingPoolClient activeAddress,
        call = claimTokensCall, txnNote = None, fee = Some feesAmount \<rparr>]"

definition claimTokens ::
  "'r LedgerGateway \<Rightarrow> PoolInfo list \<Rightarrow> string \<Rightarrow> 'r GatewayCall list \<times> (error + unit)" where
  "claimTokens gateway poolInfos activeAddress =
     (let atc1 = concat (map (claimTokens_simulateCalls activeAddress) poolInfos);
          simulated = buildGroup gateway atc1
      in
     (case simulate gateway simulated of
        Inl e \<Rightarrow> ([Simulate simulated], Inl e)
      | Inr simulateResult \<Rightarrow>
     (let feesAmount = claimTokens_feesAmount (appBudgetAdded simulateResult);
          atc2 = concat (map (claimTokens_executeCalls activeAddress feesAmount) poolInfos)
      in
     (case execute gateway atc2 of
        Inl e \<Rightarrow> ([Simulate simulated, Execute atc2], Inl e)
      | Inr rs \<Rightarrow> ([Simulate simulated, Execute atc2], Inr ())))))"

section \<open>Comparing the two phases\<close>

text \<open>
  A call with everything removed that the two phases are allowed to differ in: the sender
  of the call, its fee, the signer of an accompanying payment, and the group id a composer
  wrote into that payment.
\<close>

definition neutralSender :: SenderAccount where
  "neutralSender = \<lparr> addr = [], signer = EmptyTransactionSigner \<rparr>"

definition neutralPayment :: "TransactionWithSigner \<Rightarrow> TransactionWithSigner" where
  "neutralPayment p =
     p\<lparr> transaction := (transaction p)\<lparr>group := None\<rparr>,
        txnSigner := (txnSigner p)\<lparr>signer := EmptyTransactionSigner\<rparr> \<rparr>"

fun neutralCall :: "'r MethodCall \<Rightarrow> 'r MethodCall" where
  "neutralCall (addValidatorCall mbrPayment nfdName config) =
     addValidatorCall (neutralPayment mbrPayment) nfdName config"
| "neutralCall (addStakeCall stakedAmountPayment vid valueToVerify) =
     addStakeCall (neutralPayment stakedAmountPayment) vid valueToVerify"
| "neutralCall c = c"

definition phaseNeutral :: "'r AppCall \<Rightarrow> 'r AppCall" where
  "phaseNeutral c = c\<lparr> sender := neutralSender, fee := None, call := neutralCall (call c) \<rparr>"

text \<open>The payment transactions that ride in a group.\<close>

fun paymentOf :: "'r MethodCall \<Rightarrow> PaymentTxn list" where
  "paymentOf (addValidatorCall mbrPayment nfdName config) = [transaction mbrPayment]"
| "paymentOf (addStakeCall stakedAmountPayment vid valueToVerify) = [transaction stakedAmountPayment]"
| "paymentOf c = []"

definition paymentsOf :: "'r AppCall list \<Rightarrow> PaymentTxn list" where
  "paymentsOf calls = concat (map (\<lambda>c. paymentOf (call c)) calls)"

text \<open>
  The three ways a two-phase operation can end: before the simulation, at a rejected
  simulation, or after the execution of a group that carries the fees \<open>fees b\<close> for the
  simulated budget \<open>b\<close> and is the simulated group up to sender, signer, fee and group id.
\<close>

definition twoPhase ::
  "'r LedgerGateway \<Rightarrow> (nat \<Rightarrow> rat option list) \<Rightarrow> 'r GatewayCall list \<times> (error + 'a) \<Rightarrow> bool" where
  "twoPhase gateway fees outcome \<longleftrightarrow>
     (fst outcome = [] \<and> isl (snd outcome)) \<or>
     (\<exists>g1 e. fst outcome = [Simulate g1] \<and> simulate gateway g1 = Inl e \<and> snd outcome = Inl e) \<or>
     (\<exists>g1 g2 r. fst outcome = [Simulate g1, Execute g2] \<and> simulate gateway g1 = Inr r \<and>
        map fee g2 = fees (appBudgetAdded r) \<and>
        map phaseNeutral g2 = map phaseNeutral g1 \<and>
        paymentsOf g2 = map (\<lambda>p. p\<lparr>group := None\<rparr>) (paymentsOf g1))"

text \<open>
  The fee the specification announces: 1000 fee units per 700 units of budget, rounded up,
  plus a flat surcharge.
\<close>

definition claimedFee :: "rat \<Rightarrow> nat \<Rightarrow> rat" where
  "claimedFee surcharge budget = 1000 * of_int \<lceil>of_nat budget / (700 :: rat)\<rceil> + surcharge"

text \<open>
  The fees of an executed group, as a property \<open>P\<close> of the budget its simulation reported
  and of the list of the fees of its calls.
\<close>

definition executedFees ::
  "'r LedgerGateway \<Rightarrow> (nat \<Rightarrow> rat option list \<Rightarrow> bool) \<Rightarrow> 'r GatewayCall list \<Rightarrow> bool" where
  "executedFees gateway P gatewayCalls \<longleftrightarrow>
     (\<forall>g2. Execute g2 \<in> set gatewayCalls \<longrightarrow>
        (\<exists>g1 r. Simulate g1 \<in> set gatewayCalls \<and> simulate gateway g1 = Inr r \<and>
           P (appBudgetAdded r) (map fee g2)))"

text \<open>
  A simulation that the gateway rejected ends the operation with that error, and no group
  is executed.
\<close>

definition rejectedSimulationAborts ::
  "'r LedgerGateway \<Rightarrow> 'r GatewayCall list \<times> (error + 'a) \<Rightarrow> bool" where
  "rejectedSimulationAborts gateway outcome \<longleftrightarrow>
     (\<forall>g e. Simulate g \<in> set (fst outcome) \<longrightarrow> simulate gateway g = Inl e \<longrightarrow>
        snd outcome = Inl e \<and> (\<forall>g'. Execute g' \<notin> set (fst outcome)))"

text \<open>The groups an operation had simulated, and the groups it had executed.\<close>

fun simulatedGroups :: "'r GatewayCall list \<Rightarrow> 'r AppCall list list" where
  "simulatedGroups [] = []"
| "simulatedGroups (Simulate g # gatewayCalls) = g # simulatedGroups gatewayCalls"
| "simulatedGroups (Execute g # gatewayCalls) = simulatedGroups gatewayCalls"

fun executedGroups :: "'r GatewayCall list \<Rightarrow> 'r AppCall list list" where
  "executedGroups [] = []"
| "executedGroups (Simulate g # gatewayCalls) = executedGroups gatewayCalls"
| "executedGroups (Execute g # gatewayCalls) = g # executedGroups gatewayCalls"

text \<open>
  A simulation that resolved is followed by the execution of a group, whatever the
  simulation reported.
\<close>

definition resolvedSimulationProceeds ::
  "'r LedgerGateway \<Rightarrow> 'r GatewayCall list \<times> (error + 'a) \<Rightarrow> bool" where
  "resolvedSimulationProceeds gateway outcome \<longleftrightarrow>
     (\<forall>g r. Simulate g \<in> set (fst outcome) \<longrightarrow> simulate gateway g = Inr r \<longrightarrow>
        (\<exists>g2. Execute g2 \<in> set (fst outcome)))"

text \<open>
  The executed group is the simulated one up to sender, signer and fee, and its payments
  are the simulated group's payments with the group id cleared.
\<close>

definition phasesAgree :: "'r GatewayCall list \<Rightarrow> bool" where
  "phasesAgree gatewayCalls \<longleftrightarrow>
     (\<forall>g1 g2. Simulate g1 \<in> set gatewayCalls \<longrightarrow> Execute g2 \<in> set gatewayCalls \<longrightarrow>
        map phaseNeutral g2 = map phaseNeutral g1 \<and>
        paymentsOf g2 = map (\<lambda>p. p\<lparr>group := None\<rparr>) (paymentsOf g1))"

section \<open>Example inputs\<close>



definition exampleClient :: "(unit, unit, unit, unit) ValidatorRegistryClient" where
  "exampleClient =
     \<lparr> getNumValidators = Inr (Some [Some 3]),
       getValidatorConfig = (\<lambda>v. Inr (Some [Some ()])),
       getValidatorState = (\<lambda>v. if v = 3 then Inr (Some [None]) else Inr (Some [Some ()])),
       getPools = (\<lambda>v. if v = 2 then Inl (Thrown ''gateway timeout'')
                       else Inr (Some [Some [(1001, 1, 100)]])),
       getTokenPayoutRatio = (\<lambda>v. Inr (Some [Some ()])),
       getNodePoolAssignments = (\<lambda>v. Inr (Some [Some ()])),
       getStakedPoolsForAccount = (\<lambda>staker. Inr (Some [Some [(7, 1, 1001), (7, 2, 1002)]])) \<rparr>"


definition exampleStakerInfo :: StakingPoolReads where
  "exampleStakerInfo app staker =
     (if app = 1002 then Inl (Thrown ''gateway timeout'')
      else Inr (Some [Some (staker, 100, 3, 0, 1000)]))"

definition exampleTransform :: "unit \<Rightarrow> unit \<Rightarrow> RawPoolsInfo \<Rightarrow> unit \<Rightarrow> unit \<Rightarrow> RawPoolsInfo" where
  "exampleTransform rawConfig rawState rawPoolsInfo rawPoolTokenPayoutRatios rawNodePoolAssignment
     = rawPoolsInfo"

definition exampleGateway :: "unit LedgerGateway" where
  "exampleGateway =
     \<lparr> getAppReference = Inr ''APP'',
       getMbrAmounts = (\<lambda>a. Inr (Some [Some (100, 200, 300, 400)])),
       getTransactionParams = Inr (SuggestedParams 1 1001),
       assignGroupID = (\<lambda>g. 42),
       simulate = (\<lambda>g. Inr \<lparr> appBudgetAdded = 1400, failureMessage = None \<rparr>),
       execute = (\<lambda>g. Inr (Some [None, Some (Tuple [Uint 7, Uint 1, Uint 1001])])) \<rparr>"

definition rejectingGateway :: "unit LedgerGateway" where
  "rejectingGateway = exampleGateway\<lparr> simulate := (\<lambda>g. Inl (Thrown ''Network request error'')) \<rparr>"

text \<open>
  A gateway whose simulation resolves and reports that the contract rejected the call: one
  budget unit of 700 was added before the failure.
\<close>

definition failedSimulation :: SimulateResult where
  "failedSimulation =
     \<lparr> appBudgetAdded = 700,
       failureMessage = Some ''logic eval error: assert failed'' \<rparr>"

definition failingGateway :: "unit LedgerGateway" where
  "failingGateway = exampleGateway\<lparr> simulate := (\<lambda>g. Inr failedSimulation) \<rparr>"

text \<open>
  The built-ins at the strings the examples use. The address is the fee sink of the
  module, and the key is the first 32 of the 36 bytes its base-32 text decodes to.
\<close>

definition feeSinkPublicKey :: "byte list" where
  "feeSinkPublicKey =
     [7, 218, 203, 75, 109, 158, 209, 65, 177, 117, 118, 189, 69, 154, 230, 66,
      29, 72, 109, 163, 212, 239, 34, 71, 196, 9, 163, 150, 184, 46, 162, 33]"

definition exampleImports :: "(unit, unit) Imports" where
  "exampleImports =
     \<lparr> Number_of = (\<lambda>s. if s = ''1'' then Some 1 else if s = ''2'' then Some 2 else None),
       BigInt_of = (\<lambda>s. if s = ''1234'' then Inr 1234 else Inl (Thrown ''SyntaxError'')),
       decodeAddress = (\<lambda>a. if a = Some FEE_SINK then Inr feeSinkPublicKey
                            else Inl (Thrown ''address seems to be malformed'')),
       gatingValueWidth = 8,
       convertOthers = Inr \<rparr>"

definition exampleValues :: "string \<Rightarrow> string \<Rightarrow> unit ValidatorConfigInput" where
  "exampleValues gatingType gatingValue =
     \<lparr> ValidatorConfigInput.owner = ''OWNER'', ValidatorConfigInput.manager = ''MANAGER'',
       ValidatorConfigInput.nfdForInfo = None,
       ValidatorConfigInput.entryGatingType = Some gatingType,
       ValidatorConfigInput.entryGatingValue = Some gatingValue,
       otherValues = () \<rparr>"





text \<open>A registry whose validator 1 has an empty pool directory.\<close>

definition emptyPoolsClient :: "(unit, unit, unit, unit) ValidatorRegistryClient" where
  "emptyPoolsClient = exampleClient\<lparr> getPools := (\<lambda>v. Inr (Some [Some []])) \<rparr>"

section \<open>Properties of the numbers\<close>

lemma toDouble_safe: "\<bar>n\<bar> < 2 ^ 53 \<Longrightarrow> toDouble n = n"
  by (simp add: toDouble_def)








section \<open>Properties of the aggregation fold\<close>






lemma updateTotals_validatorId [simp]:
  "StakerValidatorData.validatorId (updateTotals d p) = StakerValidatorData.validatorId d"
  by (simp add: updateTotals_def)

lemma map_validatorId_mutateExisting [simp]:
  "map StakerValidatorData.validatorId (mutateExisting acc p) = map StakerValidatorData.validatorId acc"
  by (induction acc) auto























section \<open>Properties of the batch loop\<close>

declare batchLoop.simps [simp del]


lemma isl_promiseAll: "isl (promiseAll ps) \<longleftrightarrow> (\<exists>p \<in> set ps. isl p)"
  by (induction ps) (auto split: sum.splits)

lemma promiseAll_fails:
  "\<exists>p \<in> set ps. isl p \<Longrightarrow> isl (promiseAll ps)"
  by (simp add: isl_promiseAll)

lemma promiseAll_length:
  "promiseAll ps = Inr vs \<Longrightarrow> length vs = length ps"
  by (induction ps arbitrary: vs) (auto split: sum.splits)

lemma batchArgs_eq:
  "map (\<lambda>index. arg (i + index)) [0..<min 10 (n - i)] = map arg [i..<min (i + 10) n]"
proof -
  have "map (\<lambda>index. arg (i + index)) [0..<min 10 (n - i)]
        = map arg (map (\<lambda>index. i + index) [0..<min 10 (n - i)])"
    by simp
  also have "map (\<lambda>index. i + index) [0..<min 10 (n - i)] = [i..<i + min 10 (n - i)]"
    by (simp add: map_add_upt add.commute)
  also have "i + min 10 (n - i) = (if i < n then min (i + 10) n else i)" by auto
  finally show ?thesis by (cases "i < n") auto
qed



lemma batchLoop_fails:
  assumes "\<exists>j. i \<le> j \<and> j < n \<and> isl (fetch (arg j))"
  shows "isl (snd (batchLoop arg fetch n i schedule allResults))"
  using assms
proof (induction arg fetch n i schedule allResults rule: batchLoop.induct)
  case (1 arg fetch n i schedule allResults)
  then obtain j where j: "i \<le> j" "j < n" "isl (fetch (arg j))" by blast
  then have lt: "i < n" by simp
  let ?batch = "map arg [i..<min (i + 10) n]"
  show ?case
  proof (cases "promiseAll (map fetch ?batch)")
    case (Inl e)
    then show ?thesis
      using lt by (subst batchLoop.simps) (simp add: batchArgs_eq Let_def)
  next
    case (Inr batchResults)
    have "\<not> (\<exists>p \<in> set (map fetch ?batch). isl p)"
      using Inr promiseAll_fails[of "map fetch ?batch"] by auto
    then have "\<not> j < min (i + 10) n"
      using j by auto
    then have "i + 10 \<le> j" using j by simp
    then have "\<exists>j. i + 10 \<le> j \<and> j < n \<and> isl (fetch (arg j))"
      using j by blast
    then have "isl (snd (batchLoop arg fetch n (i + 10) ((schedule @ map Call ?batch) @ [BatchDone])
                (allResults @ batchResults)))"
      using "1.IH"[OF lt _ _ Inr[unfolded batchArgs_eq[symmetric]]] by (simp add: batchArgs_eq)
    then show ?thesis
      using lt Inr by (subst batchLoop.simps) (simp add: batchArgs_eq Let_def)
  qed
qed







text \<open>
  Claim C6. If the fetch of one pool key fails, fetchStakerValidatorData fails, and if
  fetchValidator fails for one id between 1 and the validator count, fetchValidators fails:
  the outcome is an error, not a list.
\<close>

theorem failed_fetch_fails_aggregate:
  "(fetchStakedPoolsForAccount validatorClient staker = Inr poolKeys \<longrightarrow>
    key \<in> set poolKeys \<longrightarrow>
    isl (fetchStakerPoolData getStakerInfo key staker) \<longrightarrow>
    isl (snd (fetchStakerValidatorData validatorClient getStakerInfo staker)))
   \<and>
   (getNumValidators validatorClient = Inr (Some (Some numValidators # others)) \<longrightarrow>
    1 \<le> vid \<longrightarrow> vid \<le> int numValidators \<longrightarrow>
    isl (fetchValidator transformValidatorData validatorClient vid) \<longrightarrow>
    isl (snd (fetchValidators transformValidatorData validatorClient)))"
proof (intro conjI impI)
  assume keys: "fetchStakedPoolsForAccount validatorClient staker = Inr poolKeys"
    and key: "key \<in> set poolKeys"
    and fails: "isl (fetchStakerPoolData getStakerInfo key staker)"
  from key obtain j where j: "j < length poolKeys" "poolKeys ! j = key"
    by (auto simp: in_set_conv_nth)
  then have "\<exists>j\<ge>0. j < length poolKeys \<and>
      isl ((\<lambda>key. fetchStakerPoolData getStakerInfo key staker) ((\<lambda>j. poolKeys ! j) j))"
    using fails by auto
  then have "isl (snd (batchLoop (\<lambda>j. poolKeys ! j)
      (\<lambda>key. fetchStakerPoolData getStakerInfo key staker) (length poolKeys) 0 [] []))"
    by (rule batchLoop_fails)
  then show "isl (snd (fetchStakerValidatorData validatorClient getStakerInfo staker))"
    using keys by (auto simp: fetchStakerValidatorData_def split: prod.splits sum.splits)
next
  assume num: "getNumValidators validatorClient = Inr (Some (Some numValidators # others))"
    and lo: "1 \<le> vid" and hi: "vid \<le> int numValidators"
    and fails: "isl (fetchValidator transformValidatorData validatorClient vid)"
  have pos: "numValidators \<noteq> 0" using lo hi by auto
  have "nat (vid - 1) < numValidators" "int (nat (vid - 1)) + 1 = vid" using lo hi by auto
  then have "\<exists>j\<ge>0. j < numValidators \<and>
      isl (fetchValidator transformValidatorData validatorClient ((\<lambda>j. int j + 1) j))"
    using fails by (intro exI[of _ "nat (vid - 1)"]) simp
  then have "isl (snd (batchLoop (\<lambda>j. int j + 1)
      (fetchValidator transformValidatorData validatorClient) numValidators 0 [] []))"
    by (rule batchLoop_fails)
  then show "isl (snd (fetchValidators transformValidatorData validatorClient))"
    using num pos by (simp add: fetchValidators_def firstReturn_def)
qed

text \<open>The theorem at the example inputs.\<close>

theorem failed_fetch_fails_aggregate_witness:
  "fetchStakedPoolsForAccount exampleClient ''S''
     = Inr [\<lparr> ValidatorPoolKey.validatorId = 7, poolId = 1, poolAppId = 1001 \<rparr>,
            \<lparr> ValidatorPoolKey.validatorId = 7, poolId = 2, poolAppId = 1002 \<rparr>] \<and>
   isl (fetchStakerPoolData exampleStakerInfo
          \<lparr> ValidatorPoolKey.validatorId = 7, poolId = 2, poolAppId = 1002 \<rparr> ''S'') \<and>
   isl (snd (fetchStakerValidatorData exampleClient exampleStakerInfo ''S'')) \<and>
   getNumValidators exampleClient = Inr (Some [Some 3]) \<and>
   isl (fetchValidator exampleTransform exampleClient 2) \<and>
   isl (snd (fetchValidators exampleTransform exampleClient))"
  using failed_fetch_fails_aggregate [of exampleClient "''S''"
               "[\<lparr> ValidatorPoolKey.validatorId = 7, poolId = 1, poolAppId = 1001 \<rparr>,
                 \<lparr> ValidatorPoolKey.validatorId = 7, poolId = 2, poolAppId = 1002 \<rparr>]"
               "\<lparr> ValidatorPoolKey.validatorId = 7, poolId = 2, poolAppId = 1002 \<rparr>"
               exampleStakerInfo 3 "[]" 2 exampleTransform]
  by (simp add: exampleClient_def exampleStakerInfo_def fetchStakedPoolsForAccount_def
        firstReturnStrict_def firstReturn_def fetchStakerPoolData_def fetchValidator_def
        NumberOfBigint_def toDouble_safe)

section \<open>Properties of fetchStakerValidatorData\<close>





section \<open>Properties of the two-phase operations\<close>

lemma removeStake_twoPhase:
  "twoPhase gateway (\<lambda>b. [Some 0, Some 0, Some (removeStake_feesAmount b)])
     (removeStake gateway poolApp amountToUnstake activeAddress)"
  unfolding twoPhase_def removeStake_def Let_def
  by (auto split: sum.splits simp: buildGroup_def phaseNeutral_def paymentsOf_def)

lemma epochBalanceUpdate_twoPhase:
  "twoPhase gateway (\<lambda>b. [Some 0, Some 0, Some (epochBalanceUpdate_feesAmount b)])
     (epochBalanceUpdate gateway poolApp activeAddress)"
  unfolding twoPhase_def epochBalanceUpdate_def Let_def
  by (auto split: sum.splits simp: buildGroup_def phaseNeutral_def paymentsOf_def)

lemma addStake_twoPhase:
  "twoPhase gateway (\<lambda>b. [None, Some (addStake_feesAmount b)])
     (addStake gateway vid stakeAmount valueToVerify activeAddress)"
  unfolding twoPhase_def addStake_def Let_def
  by (auto split: sum.splits simp: buildGroup_def phaseNeutral_def paymentsOf_def grouped_def neutralPayment_def)

lemma addValidator_twoPhase:
  "twoPhase gateway (\<lambda>b. [Some (addValidator_feesAmount b)])
     (addValidator gateway js values nfdAppId activeAddress)"
  unfolding twoPhase_def addValidator_def Let_def
  by (auto split: sum.splits prod.splits simp: buildGroup_def phaseNeutral_def paymentsOf_def grouped_def neutralPayment_def)

lemma setPaymentGroup_id: "paymentOf c = [] \<Longrightarrow> setPaymentGroup g c = c"
  by (cases c) simp_all

lemma buildGroup_id:
  assumes "\<forall>c \<in> set calls. paymentOf (call c) = []"
  shows "buildGroup gateway calls = calls"
  unfolding buildGroup_def
  by (rule map_idI) (simp add: assms setPaymentGroup_id)

lemma claimTokens_twoPhase:
  "twoPhase gateway
     (\<lambda>b. concat (map (\<lambda>pool. [Some 0, Some 0, Some (claimTokens_feesAmount b)]) poolInfos))
     (claimTokens gateway poolInfos activeAddress)"
proof -
  let ?atc1 = "concat (map (claimTokens_simulateCalls activeAddress) poolInfos) :: 'a AppCall list"
  have f: "map fee (concat (map (claimTokens_executeCalls activeAddress x) poolInfos)
             :: 'a AppCall list)
        = concat (map (\<lambda>pool. [Some 0, Some 0, Some x]) poolInfos)" for x
    by (induction poolInfos) (simp_all add: claimTokens_executeCalls_def)
  have b: "buildGroup gateway ?atc1 = ?atc1"
    by (rule buildGroup_id) (auto simp: claimTokens_simulateCalls_def)
  have n: "map phaseNeutral (concat (map (claimTokens_executeCalls activeAddress x) poolInfos)
             :: 'a AppCall list)
        = map phaseNeutral ?atc1" for x
    by (induction poolInfos)
       (simp_all add: claimTokens_executeCalls_def claimTokens_simulateCalls_def phaseNeutral_def)
  have p1: "paymentsOf ?atc1 = []"
    by (induction poolInfos) (simp_all add: paymentsOf_def claimTokens_simulateCalls_def)
  have p2: "paymentsOf (concat (map (claimTokens_executeCalls activeAddress x) poolInfos)
             :: 'a AppCall list) = []" for x
    by (induction poolInfos) (simp_all add: paymentsOf_def claimTokens_executeCalls_def)
  show ?thesis
    unfolding twoPhase_def claimTokens_def Let_def b
    by (auto split: sum.splits simp: f n p1 p2)
qed

lemma twoPhase_executedFees:
  "twoPhase gateway fees outcome \<Longrightarrow> (\<And>b. P b (fees b)) \<Longrightarrow> executedFees gateway P (fst outcome)"
  unfolding twoPhase_def executedFees_def by auto

lemma twoPhase_rejectedSimulationAborts:
  "twoPhase gateway fees outcome \<Longrightarrow> rejectedSimulationAborts gateway outcome"
  unfolding twoPhase_def rejectedSimulationAborts_def by auto

lemma twoPhase_phasesAgree:
  "twoPhase gateway fees outcome \<Longrightarrow> phasesAgree (fst outcome)"
  unfolding twoPhase_def phasesAgree_def by auto

lemma ceil_div_700: "(int b + 699) div 700 = - ((- int b) div 700)"
proof -
  define q where "q = int b div 700"
  define r where "r = int b mod 700"
  have b: "int b = 700 * q + r" and r: "0 \<le> r" "r < 700"
    by (simp_all add: q_def r_def)
  show ?thesis
  proof (cases "r = 0")
    case True
    have "(int b + 699) div 700 = q"
      by (rule int_div_pos_eq[where r = 699]) (use b True in simp_all)
    moreover have "(- int b) div 700 = - q"
      by (rule int_div_pos_eq[where r = 0]) (use b True in simp_all)
    ultimately show ?thesis by simp
  next
    case False
    have "(int b + 699) div 700 = q + 1"
      by (rule int_div_pos_eq[where r = "r - 1"]) (use b r False in simp_all)
    moreover have "(- int b) div 700 = - q - 1"
      by (rule int_div_pos_eq[where r = "700 - r"]) (use b r False in simp_all)
    ultimately show ?thesis by simp
  qed
qed

lemma floor_700: "\<lfloor>(of_nat b + 699) / (700 :: rat)\<rfloor> = (int b + 699) div 700"
proof -
  have "(of_nat b + 699) / (700 :: rat) = of_int (int b + 699) / of_int 700" by simp
  then show ?thesis by (simp only: floor_divide_of_int_eq)
qed

lemma ceiling_700: "\<lceil>of_nat b / (700 :: rat)\<rceil> = - ((- int b) div 700)"
proof -
  have "of_nat b / (700 :: rat) = of_int (int b) / of_int 700" by simp
  then show ?thesis by (simp only: ceiling_divide_eq_div)
qed

lemma ceiling_fee:
  "1000 * of_int \<lfloor>(of_nat b + 699) / (700 :: rat)\<rfloor> = claimedFee 0 b"
  by (simp only: claimedFee_def floor_700 ceiling_700 ceil_div_700 add_0_right)

lemma exact_fee:
  assumes "700 dvd b"
  shows "s + 1000 * (of_nat b / (700 :: rat)) = claimedFee s b"
proof -
  from assms obtain k where "b = 700 * k" ..
  then show ?thesis by (simp add: claimedFee_def)
qed

lemma twoPhase_resolvedSimulationProceeds:
  "twoPhase gateway fees outcome \<Longrightarrow> resolvedSimulationProceeds gateway outcome"
  unfolding twoPhase_def resolvedSimulationProceeds_def by auto

lemmas op_defs = exampleGateway_def buildGroup_def grouped_def
  makeSimulateValidatorClient_def makeValidatorClient_def makeSimulateStakingPoolClient_def
  makeStakingPoolClient_def firstReturnStrict_def firstReturn_def NumberOfBigint_def
  toDouble_safe

lemma example_makeValidatorConfig:
  "makeValidatorConfig exampleImports (exampleValues ''2'' ''1234'') 0
     = Inr \<lparr> id = 0, owner = ''OWNER'', manager = ''MANAGER'', nfdForInfo = 0,
             entryGatingType = Some 2,
             entryGatingValue = gatingValueFromBigint 8 1234,
             otherFields = () \<rparr>"
  by (simp add: makeValidatorConfig_def entryGatingValueOf_def entryGatingTypeOf_def
        exampleImports_def exampleValues_def)

text \<open>
  Claim C1, as the code has it. The calls of an executed group carry these fees, where
  \<open>b\<close> is the budget the simulation reported: addValidator
  \<open>1000 * \<lceil>b / 700\<rceil>\<close> with no surcharge; removeStake 0 on its two gas calls and
  \<open>1000 * \<lceil>b / 700\<rceil>\<close> with no surcharge on the main call; claimTokens the same three
  fees for each pool; addStake no fee on its gas call and, when 700 divides \<open>b\<close>,
  \<open>1000 * \<lceil>b / 700\<rceil> + 2000\<close> on the main call; epochBalanceUpdate 0 on its two gas
  calls and, when 700 divides \<open>b\<close>, \<open>1000 * \<lceil>b / 700\<rceil> + 3000\<close> on the main call.
\<close>

theorem phase2_fee_of_budget:
  "executedFees gateway (\<lambda>b fees. fees = [Some (claimedFee 0 b)])
     (fst (addValidator gateway js values nfdAppId activeAddress)) \<and>
   executedFees gateway (\<lambda>b fees. 700 dvd b \<longrightarrow> fees = [None, Some (claimedFee 2000 b)])
     (fst (addStake gateway vid stakeAmount valueToVerify activeAddress)) \<and>
   executedFees gateway (\<lambda>b fees. fees = [Some 0, Some 0, Some (claimedFee 0 b)])
     (fst (removeStake gateway poolApp amountToUnstake activeAddress)) \<and>
   executedFees gateway (\<lambda>b fees. 700 dvd b \<longrightarrow> fees = [Some 0, Some 0, Some (claimedFee 3000 b)])
     (fst (epochBalanceUpdate gateway poolApp activeAddress)) \<and>
   executedFees gateway
     (\<lambda>b fees. fees = concat (map (\<lambda>pool. [Some 0, Some 0, Some (claimedFee 0 b)]) poolInfos))
     (fst (claimTokens gateway poolInfos activeAddress))"
proof (intro conjI)
  show "executedFees gateway (\<lambda>b fees. fees = [Some (claimedFee 0 b)])
     (fst (addValidator gateway js values nfdAppId activeAddress))"
    by (rule twoPhase_executedFees[OF addValidator_twoPhase])
       (simp add: addValidator_feesAmount_def ceiling_fee)
  show "executedFees gateway (\<lambda>b fees. 700 dvd b \<longrightarrow> fees = [None, Some (claimedFee 2000 b)])
     (fst (addStake gateway vid stakeAmount valueToVerify activeAddress))"
    by (rule twoPhase_executedFees[OF addStake_twoPhase])
       (metis addStake_feesAmount_def exact_fee)
  show "executedFees gateway (\<lambda>b fees. fees = [Some 0, Some 0, Some (claimedFee 0 b)])
     (fst (removeStake gateway poolApp amountToUnstake activeAddress))"
    by (rule twoPhase_executedFees[OF removeStake_twoPhase])
       (simp add: removeStake_feesAmount_def ceiling_fee)
  show "executedFees gateway (\<lambda>b fees. 700 dvd b \<longrightarrow> fees = [Some 0, Some 0, Some (claimedFee 3000 b)])
     (fst (epochBalanceUpdate gateway poolApp activeAddress))"
    by (rule twoPhase_executedFees[OF epochBalanceUpdate_twoPhase])
       (metis epochBalanceUpdate_feesAmount_def exact_fee)
  show "executedFees gateway
     (\<lambda>b fees. fees = concat (map (\<lambda>pool. [Some 0, Some 0, Some (claimedFee 0 b)]) poolInfos))
     (fst (claimTokens gateway poolInfos activeAddress))"
    by (rule twoPhase_executedFees[OF claimTokens_twoPhase])
       (simp add: claimTokens_feesAmount_def ceiling_fee)
qed

text \<open>The theorem at the example inputs.\<close>

theorem phase2_fee_of_budget_witness:
  "(\<exists>g2. Execute g2 \<in> set (fst (addValidator exampleGateway exampleImports
                                    (exampleValues ''2'' ''1234'') 0 ''S'')) \<and>
         map fee g2 = [Some 2000]) \<and>
   (\<exists>g2. Execute g2 \<in> set (fst (addStake exampleGateway 7 1000000 0 ''S'')) \<and>
         map fee g2 = [None, Some 4000]) \<and>
   (\<exists>g2. Execute g2 \<in> set (fst (removeStake exampleGateway 1001 5 ''S'')) \<and>
         map fee g2 = [Some 0, Some 0, Some 2000]) \<and>
   (\<exists>g2. Execute g2 \<in> set (fst (epochBalanceUpdate exampleGateway 1001 ''S'')) \<and>
         map fee g2 = [Some 0, Some 0, Some 5000]) \<and>
   (\<exists>g2. Execute g2 \<in> set (fst (claimTokens exampleGateway
                [\<lparr> PoolInfo.poolAppId = 1001, totalStakers = 1, totalAlgoStaked = 100 \<rparr>] ''S'')) \<and>
         map fee g2 = [Some 0, Some 0, Some 2000])"
proof -
  have c: "claimedFee s 1400 = 2000 + s" for s
    by (simp add: claimedFee_def)
  note v = example_makeValidatorConfig
  show ?thesis
    using phase2_fee_of_budget [of exampleGateway exampleImports "exampleValues ''2'' ''1234''" 0 "''S''"
                 7 1000000 0 1001 5
                 "[\<lparr> PoolInfo.poolAppId = 1001, totalStakers = 1, totalAlgoStaked = 100 \<rparr>]"]
    by (simp add: addValidator_def v addStake_def epochBalanceUpdate_def removeStake_def
          claimTokens_def claimTokens_simulateCalls_def claimTokens_executeCalls_def
          op_defs Let_def executedFees_def c addValidator_feesAmount_def
          addStake_feesAmount_def epochBalanceUpdate_feesAmount_def
          removeStake_feesAmount_def claimTokens_feesAmount_def)
qed

text \<open>
  The fee of addStake is not the rounded-up fee plus a flat surcharge, whatever the
  surcharge: the budgets 700 and 175 would need the surcharges 2000 and 1250. And the
  surcharge does not follow the gas calls: removeStake and epochBalanceUpdate both have
  two of them, with surcharges 0 and 3000.
\<close>

theorem phase2_fee_flat_surcharge_counterexample:
  "\<not> (\<exists>s. \<forall>b. addStake_feesAmount b = claimedFee s b) \<and>
   removeStake_feesAmount 700 = claimedFee 0 700 \<and>
   epochBalanceUpdate_feesAmount 700 = claimedFee 3000 700"
proof (intro conjI)
  show "\<not> (\<exists>s. \<forall>b. addStake_feesAmount b = claimedFee s b)"
  proof
    assume "\<exists>s. \<forall>b. addStake_feesAmount b = claimedFee s b"
    then obtain s where s: "\<forall>b. addStake_feesAmount b = claimedFee s b" ..
    from s have "addStake_feesAmount 700 = claimedFee s 700" by blast
    then have "s = 2000" by (simp add: addStake_feesAmount_def claimedFee_def)
    moreover have c: "\<lceil>(1 :: rat) / 4\<rceil> = 1"
      by (rule ceiling_unique) simp_all
    from s have "addStake_feesAmount 175 = claimedFee s 175" by blast
    then have "s = 1250" by (simp add: addStake_feesAmount_def claimedFee_def c)
    ultimately show False by simp
  qed
  show "removeStake_feesAmount 700 = claimedFee 0 700"
    by (simp only: removeStake_feesAmount_def ceiling_fee)
  show "epochBalanceUpdate_feesAmount 700 = claimedFee 3000 700"
    by (simp only: epochBalanceUpdate_feesAmount_def exact_fee[OF dvd_refl])
qed

text \<open>
  Claim C5, as the code has it. For each of the five two-phase operations: when the
  simulate call rejects, the operation ends with that error and no group is executed (so
  no fee is computed or attached); when the simulate call resolves, a group is executed,
  whatever the simulation reported.
\<close>

theorem rejecting_simulation_aborts_resolved_proceeds:
  "(rejectedSimulationAborts gateway (addValidator gateway js values nfdAppId activeAddress) \<and>
    resolvedSimulationProceeds gateway (addValidator gateway js values nfdAppId activeAddress)) \<and>
   (rejectedSimulationAborts gateway
      (addStake gateway vid stakeAmount valueToVerify activeAddress) \<and>
    resolvedSimulationProceeds gateway
      (addStake gateway vid stakeAmount valueToVerify activeAddress)) \<and>
   (rejectedSimulationAborts gateway (removeStake gateway poolApp amountToUnstake activeAddress) \<and>
    resolvedSimulationProceeds gateway
      (removeStake gateway poolApp amountToUnstake activeAddress)) \<and>
   (rejectedSimulationAborts gateway (epochBalanceUpdate gateway poolApp activeAddress) \<and>
    resolvedSimulationProceeds gateway (epochBalanceUpdate gateway poolApp activeAddress)) \<and>
   (rejectedSimulationAborts gateway (claimTokens gateway poolInfos activeAddress) \<and>
    resolvedSimulationProceeds gateway (claimTokens gateway poolInfos activeAddress))"
  by (intro conjI twoPhase_rejectedSimulationAborts[OF addValidator_twoPhase]
        twoPhase_rejectedSimulationAborts[OF addStake_twoPhase]
        twoPhase_rejectedSimulationAborts[OF removeStake_twoPhase]
        twoPhase_rejectedSimulationAborts[OF epochBalanceUpdate_twoPhase]
        twoPhase_rejectedSimulationAborts[OF claimTokens_twoPhase]
        twoPhase_resolvedSimulationProceeds[OF addValidator_twoPhase]
        twoPhase_resolvedSimulationProceeds[OF addStake_twoPhase]
        twoPhase_resolvedSimulationProceeds[OF removeStake_twoPhase]
        twoPhase_resolvedSimulationProceeds[OF epochBalanceUpdate_twoPhase]
        twoPhase_resolvedSimulationProceeds[OF claimTokens_twoPhase])

text \<open>The theorem at the example inputs.\<close>

theorem rejecting_simulation_aborts_resolved_proceeds_witness:
  "(\<exists>g. fst (addValidator rejectingGateway exampleImports (exampleValues ''2'' ''1234'') 0 ''S'')
           = [Simulate g] \<and>
        simulate rejectingGateway g = Inl (Thrown ''Network request error'')) \<and>
   snd (addValidator rejectingGateway exampleImports (exampleValues ''2'' ''1234'') 0 ''S'')
     = Inl (Thrown ''Network request error'') \<and>
   (\<exists>g. fst (addStake rejectingGateway 7 1000000 0 ''S'') = [Simulate g]) \<and>
   snd (addStake rejectingGateway 7 1000000 0 ''S'') = Inl (Thrown ''Network request error'') \<and>
   (\<exists>g. fst (removeStake rejectingGateway 1001 5 ''S'') = [Simulate g]) \<and>
   snd (removeStake rejectingGateway 1001 5 ''S'') = Inl (Thrown ''Network request error'') \<and>
   (\<exists>g. fst (epochBalanceUpdate rejectingGateway 1001 ''S'') = [Simulate g]) \<and>
   snd (epochBalanceUpdate rejectingGateway 1001 ''S'') = Inl (Thrown ''Network request error'') \<and>
   (\<exists>g. fst (claimTokens rejectingGateway
               [\<lparr> PoolInfo.poolAppId = 1001, totalStakers = 1, totalAlgoStaked = 100 \<rparr>] ''S'')
           = [Simulate g]) \<and>
   snd (claimTokens rejectingGateway
          [\<lparr> PoolInfo.poolAppId = 1001, totalStakers = 1, totalAlgoStaked = 100 \<rparr>] ''S'')
     = Inl (Thrown ''Network request error'') \<and>
   (\<exists>g1 g2. fst (addValidator exampleGateway exampleImports (exampleValues ''2'' ''1234'') 0 ''S'')
              = [Simulate g1, Execute g2]) \<and>
   (\<exists>g1 g2. fst (addStake exampleGateway 7 1000000 0 ''S'') = [Simulate g1, Execute g2]) \<and>
   (\<exists>g1 g2. fst (removeStake exampleGateway 1001 5 ''S'') = [Simulate g1, Execute g2]) \<and>
   (\<exists>g1 g2. fst (epochBalanceUpdate exampleGateway 1001 ''S'') = [Simulate g1, Execute g2]) \<and>
   (\<exists>g1 g2. fst (claimTokens exampleGateway
               [\<lparr> PoolInfo.poolAppId = 1001, totalStakers = 1, totalAlgoStaked = 100 \<rparr>] ''S'')
              = [Simulate g1, Execute g2])"
proof -
  note v = example_makeValidatorConfig
  show ?thesis
    using rejecting_simulation_aborts_resolved_proceeds [of rejectingGateway exampleImports "exampleValues ''2'' ''1234''" 0 "''S''"
                 7 1000000 0 1001 5
                 "[\<lparr> PoolInfo.poolAppId = 1001, totalStakers = 1, totalAlgoStaked = 100 \<rparr>]"]
      rejecting_simulation_aborts_resolved_proceeds [of exampleGateway exampleImports "exampleValues ''2'' ''1234''" 0 "''S''"
                 7 1000000 0 1001 5
                 "[\<lparr> PoolInfo.poolAppId = 1001, totalStakers = 1, totalAlgoStaked = 100 \<rparr>]"]
    by (simp add: addValidator_def v addStake_def epochBalanceUpdate_def removeStake_def
          claimTokens_def rejectingGateway_def op_defs Let_def rejectedSimulationAborts_def
          resolvedSimulationProceeds_def)
qed

text \<open>
  A simulation in which the contract rejected the call resolves, with a failure message.
  removeStake does not read the message: it computes the fee 1000 from the reported budget
  700, executes the group and returns normally.
\<close>

theorem failed_simulation_still_executes_counterexample:
  "map (simulate failingGateway) (simulatedGroups (fst (removeStake failingGateway 1001 5 ''S'')))
     = [Inr failedSimulation] \<and>
   failureMessage failedSimulation = Some ''logic eval error: assert failed'' \<and>
   map (map fee) (executedGroups (fst (removeStake failingGateway 1001 5 ''S'')))
     = [[Some 0, Some 0, Some 1000]] \<and>
   snd (removeStake failingGateway 1001 5 ''S'') = Inr ()"
proof -
  have "removeStake_feesAmount 700 = claimedFee 0 700"
    by (simp only: removeStake_feesAmount_def ceiling_fee)
  then have f: "removeStake_feesAmount 700 = 1000"
    by (simp add: claimedFee_def)
  show ?thesis
    by (simp add: removeStake_def failingGateway_def failedSimulation_def op_defs Let_def f)
qed

text \<open>
  Claim C8. For each of the five two-phase operations, the executed group has the calls of
  the simulated group, in the same order, with the same application, method, arguments and
  note; they differ at most in the sender of a call, its fee and the signer of the payment;
  and the payments of the executed group are those of the simulated group with the group
  id cleared.
\<close>

theorem executed_group_is_simulated_group:
  "phasesAgree (fst (addValidator gateway js values nfdAppId activeAddress)) \<and>
   phasesAgree (fst (addStake gateway vid stakeAmount valueToVerify activeAddress)) \<and>
   phasesAgree (fst (removeStake gateway poolApp amountToUnstake activeAddress)) \<and>
   phasesAgree (fst (epochBalanceUpdate gateway poolApp activeAddress)) \<and>
   phasesAgree (fst (claimTokens gateway poolInfos activeAddress))"
  by (intro conjI twoPhase_phasesAgree[OF addValidator_twoPhase]
        twoPhase_phasesAgree[OF addStake_twoPhase]
        twoPhase_phasesAgree[OF removeStake_twoPhase]
        twoPhase_phasesAgree[OF epochBalanceUpdate_twoPhase]
        twoPhase_phasesAgree[OF claimTokens_twoPhase])

text \<open>The theorem at the example inputs.\<close>

theorem executed_group_is_simulated_group_witness:
  "(\<exists>g1 g2. fst (addStake exampleGateway 7 1000000 0 ''S'') = [Simulate g1, Execute g2] \<and>
      map phaseNeutral g2 = map phaseNeutral g1 \<and>
      paymentsOf g1 = [\<lparr> payFrom = ''S'', payTo = ''APP'', amount = 1000000,
                          suggestedParams = SuggestedParams 1 1001, group = Some 42 \<rparr>] \<and>
      paymentsOf g2 = [\<lparr> payFrom = ''S'', payTo = ''APP'', amount = 1000000,
                          suggestedParams = SuggestedParams 1 1001, group = None \<rparr>]) \<and>
   (\<exists>g1 g2. fst (addValidator exampleGateway exampleImports (exampleValues ''2'' ''1234'') 0 ''S'')
               = [Simulate g1, Execute g2] \<and>
      map phaseNeutral g2 = map phaseNeutral g1 \<and>
      paymentsOf g1 = [\<lparr> payFrom = ''S'', payTo = ''APP'', amount = 100,
                          suggestedParams = SuggestedParams 1 1001, group = Some 42 \<rparr>] \<and>
      paymentsOf g2 = [\<lparr> payFrom = ''S'', payTo = ''APP'', amount = 100,
                          suggestedParams = SuggestedParams 1 1001, group = None \<rparr>]) \<and>
   (\<exists>g1 g2. fst (removeStake exampleGateway 1001 5 ''S'') = [Simulate g1, Execute g2] \<and>
      map phaseNeutral g2 = map phaseNeutral g1) \<and>
   (\<exists>g1 g2. fst (epochBalanceUpdate exampleGateway 1001 ''S'') = [Simulate g1, Execute g2] \<and>
      map phaseNeutral g2 = map phaseNeutral g1) \<and>
   (\<exists>g1 g2. fst (claimTokens exampleGateway
                   [\<lparr> PoolInfo.poolAppId = 1001, totalStakers = 1, totalAlgoStaked = 100 \<rparr>] ''S'')
               = [Simulate g1, Execute g2] \<and>
      map phaseNeutral g2 = map phaseNeutral g1)"
proof -
  note v = example_makeValidatorConfig
  show ?thesis
    using executed_group_is_simulated_group [of exampleGateway exampleImports "exampleValues ''2'' ''1234''" 0 "''S''"
                 7 1000000 0 1001 5
                 "[\<lparr> PoolInfo.poolAppId = 1001, totalStakers = 1, totalAlgoStaked = 100 \<rparr>]"]
    by (simp add: addValidator_def v addStake_def epochBalanceUpdate_def removeStake_def
          claimTokens_def claimTokens_simulateCalls_def claimTokens_executeCalls_def
          op_defs Let_def phasesAgree_def paymentsOf_def phaseNeutral_def neutralPayment_def)
qed

section \<open>Properties of fetchValidator\<close>

text \<open>
  Claim C3, with "resolves empty" read as: the read has no return value, that is,
  \<open>returns?.[0]\<close> is \<open>undefined\<close>. When the five reads resolve and one of them has no return
  value, fetchValidator throws ValidatorNotFoundError; and whenever fetchValidator returns a
  Validator, all five reads resolved with a value and the Validator is
  transformValidatorData of these five values.
\<close>

theorem fetchValidator_absent_read_not_found:
  "(getValidatorConfig validatorClient vid = Inr config \<longrightarrow>
    getValidatorState validatorClient vid = Inr state \<longrightarrow>
    getPools validatorClient vid = Inr validatorPoolData \<longrightarrow>
    getTokenPayoutRatio validatorClient vid = Inr poolTokenPayoutRatios \<longrightarrow>
    getNodePoolAssignments validatorClient vid = Inr nodePoolAssignments \<longrightarrow>
    (firstReturn config = None \<or> firstReturn state = None \<or>
     firstReturn validatorPoolData = None \<or> firstReturn poolTokenPayoutRatios = None \<or>
     firstReturn nodePoolAssignments = None) \<longrightarrow>
    fetchValidator transformValidatorData validatorClient vid = Inl (ValidatorNotFoundError vid))
   \<and>
   (\<forall>validator. fetchValidator transformValidatorData validatorClient vid = Inr validator \<longrightarrow>
      (\<exists>rc rs rp rr rn rawConfig rawState rawPoolsInfo rawPoolTokenPayoutRatios
          rawNodePoolAssignment.
         getValidatorConfig validatorClient vid = Inr rc \<and>
         getValidatorState validatorClient vid = Inr rs \<and>
         getPools validatorClient vid = Inr rp \<and>
         getTokenPayoutRatio validatorClient vid = Inr rr \<and>
         getNodePoolAssignments validatorClient vid = Inr rn \<and>
         firstReturn rc = Some rawConfig \<and> firstReturn rs = Some rawState \<and>
         firstReturn rp = Some rawPoolsInfo \<and>
         firstReturn rr = Some rawPoolTokenPayoutRatios \<and>
         firstReturn rn = Some rawNodePoolAssignment \<and>
         validator = transformValidatorData rawConfig rawState rawPoolsInfo
                       rawPoolTokenPayoutRatios rawNodePoolAssignment))"
proof (intro conjI impI allI)
  assume "getValidatorConfig validatorClient vid = Inr config"
    "getValidatorState validatorClient vid = Inr state"
    "getPools validatorClient vid = Inr validatorPoolData"
    "getTokenPayoutRatio validatorClient vid = Inr poolTokenPayoutRatios"
    "getNodePoolAssignments validatorClient vid = Inr nodePoolAssignments"
    "firstReturn config = None \<or> firstReturn state = None \<or>
     firstReturn validatorPoolData = None \<or> firstReturn poolTokenPayoutRatios = None \<or>
     firstReturn nodePoolAssignments = None"
  then show "fetchValidator transformValidatorData validatorClient vid
             = Inl (ValidatorNotFoundError vid)"
    by (auto simp: fetchValidator_def split: option.splits)
next
  fix validator
  assume "fetchValidator transformValidatorData validatorClient vid = Inr validator"
  then show "\<exists>rc rs rp rr rn rawConfig rawState rawPoolsInfo rawPoolTokenPayoutRatios
          rawNodePoolAssignment.
         getValidatorConfig validatorClient vid = Inr rc \<and>
         getValidatorState validatorClient vid = Inr rs \<and>
         getPools validatorClient vid = Inr rp \<and>
         getTokenPayoutRatio validatorClient vid = Inr rr \<and>
         getNodePoolAssignments validatorClient vid = Inr rn \<and>
         firstReturn rc = Some rawConfig \<and> firstReturn rs = Some rawState \<and>
         firstReturn rp = Some rawPoolsInfo \<and>
         firstReturn rr = Some rawPoolTokenPayoutRatios \<and>
         firstReturn rn = Some rawNodePoolAssignment \<and>
         validator = transformValidatorData rawConfig rawState rawPoolsInfo
                       rawPoolTokenPayoutRatios rawNodePoolAssignment"
    by (auto simp: fetchValidator_def split: sum.splits option.splits)
qed

text \<open>The theorem at the example inputs.\<close>

theorem fetchValidator_absent_read_not_found_witness:
  "getValidatorState exampleClient 3 = Inr (Some [None]) \<and>
   firstReturn (Some [None :: unit option]) = None \<and>
   fetchValidator exampleTransform exampleClient 3 = Inl (ValidatorNotFoundError 3) \<and>
   fetchValidator exampleTransform exampleClient 1 = Inr [(1001, 1, 100)]"
  using fetchValidator_absent_read_not_found [of exampleClient 3 "Some [Some ()]" "Some [None]" "Some [Some [(1001, 1, 100)]]"
               "Some [Some ()]" "Some [Some ()]" exampleTransform]
    fetchValidator_absent_read_not_found [of exampleClient 1 "Some [Some ()]" "Some [Some ()]" "Some [Some [(1001, 1, 100)]]"
               "Some [Some ()]" "Some [Some ()]" exampleTransform]
  by (simp add: exampleClient_def firstReturn_def exampleTransform_def fetchValidator_def)

text \<open>
  A pool directory that resolves to the empty array is not a missing value: JavaScript
  counts \<open>[]\<close> as true, and fetchValidator returns the Validator built from the empty
  pool list.
\<close>

theorem fetchValidator_empty_pool_directory_counterexample:
  "getPools emptyPoolsClient 1 = Inr (Some [Some []]) \<and>
   fetchValidator exampleTransform emptyPoolsClient 1 = Inr []"
  by (simp add: emptyPoolsClient_def exampleClient_def fetchValidator_def firstReturn_def
        exampleTransform_def)

text \<open>In general: a pool directory that is the empty array is a present value.\<close>

lemma fetchValidator_empty_pool_directory:
  assumes "getValidatorConfig validatorClient vid = Inr config"
    and "getValidatorState validatorClient vid = Inr state"
    and "getPools validatorClient vid = Inr validatorPoolData"
    and "getTokenPayoutRatio validatorClient vid = Inr poolTokenPayoutRatios"
    and "getNodePoolAssignments validatorClient vid = Inr nodePoolAssignments"
    and "firstReturn config = Some rawConfig"
    and "firstReturn state = Some rawState"
    and "firstReturn validatorPoolData = Some []"
    and "firstReturn poolTokenPayoutRatios = Some rawPoolTokenPayoutRatios"
    and "firstReturn nodePoolAssignments = Some rawNodePoolAssignment"
  shows "fetchValidator transformValidatorData validatorClient vid
           = Inr (transformValidatorData rawConfig rawState [] rawPoolTokenPayoutRatios
                    rawNodePoolAssignment)"
  using assms by (simp add: fetchValidator_def)

text \<open>A read that rejects makes fetchValidator reject.\<close>

lemma fetchValidator_never_partial:
  "isl (getValidatorConfig validatorClient vid) \<or> isl (getValidatorState validatorClient vid) \<or>
   isl (getPools validatorClient vid) \<or> isl (getTokenPayoutRatio validatorClient vid) \<or>
   isl (getNodePoolAssignments validatorClient vid) \<Longrightarrow>
   isl (fetchValidator transformValidatorData validatorClient vid)"
  by (auto simp: fetchValidator_def split: sum.splits option.splits prod.splits)

section \<open>Properties of the gating value\<close>

lemma bigEndianValue_snoc: "bigEndianValue (bytes @ [b]) = bigEndianValue bytes * 256 + uint b"
  by (simp add: bigEndianValue_def)

lemma length_gatingValueFromBigint: "length (gatingValueFromBigint width v) = width"
  by (induction width arbitrary: v) simp_all

lemma bigEndianValue_gatingValueFromBigint:
  "0 \<le> v \<Longrightarrow> v < 256 ^ width \<Longrightarrow> bigEndianValue (gatingValueFromBigint width v) = v"
proof (induction width arbitrary: v)
  case 0
  then show ?case by (simp add: bigEndianValue_def)
next
  case (Suc width)
  have a: "v = 256 * (v div 256) + v mod 256" by simp
  have b: "0 \<le> v mod 256" by simp
  have c: "v < 256 * 256 ^ width" using Suc.prems(2) by simp
  have "0 \<le> v div 256" using Suc.prems(1) by simp
  moreover have "v div 256 < 256 ^ width" using a b c by linarith
  ultimately have "0 \<le> v div 256" "v div 256 < 256 ^ width" by simp_all
  then have "bigEndianValue (gatingValueFromBigint width (v div 256)) = v div 256"
    by (rule Suc.IH)
  moreover have "uint (word_of_int v :: byte) = v mod 256"
    by (simp add: uint_word_of_int)
  ultimately show ?case
    by (simp add: bigEndianValue_snoc)
qed

lemma nth_gatingValueFromBigint:
  "i < width \<Longrightarrow>
     gatingValueFromBigint width v ! i = word_of_int (v div 256 ^ (width - 1 - i))"
proof (induction width arbitrary: v)
  case 0
  then show ?case by simp
next
  case (Suc width)
  show ?case
  proof (cases "i < width")
    case True
    then have "gatingValueFromBigint (Suc width) v ! i
                 = gatingValueFromBigint width (v div 256) ! i"
      by (simp add: nth_append length_gatingValueFromBigint)
    also have "\<dots> = word_of_int (v div 256 div 256 ^ (width - 1 - i))"
      using True by (rule Suc.IH)
    also have "v div 256 div 256 ^ (width - 1 - i) = v div (256 * 256 ^ (width - 1 - i))"
      by (simp add: zdiv_zmult2_eq)
    also have "256 * 256 ^ (width - 1 - i) = (256 :: int) ^ (Suc width - 1 - i)"
      using True by (simp add: Suc_diff_Suc flip: power_Suc)
    finally show ?thesis .
  next
    case False
    then have "i = width" using Suc.prems by simp
    then show ?thesis by (simp add: nth_append length_gatingValueFromBigint)
  qed
qed

lemma makeValidatorConfig_gating:
  "makeValidatorConfig js values nfdAppId = Inr config \<Longrightarrow>
     entryGatingValueOf js values = Inr (entryGatingValue config) \<and>
     entryGatingType config = entryGatingTypeOf js values"
  by (auto simp: makeValidatorConfig_def split: sum.splits)

lemma addValidator_sends_config:
  assumes "Simulate g \<in> set (fst (addValidator gateway js values nfdAppId activeAddress)) \<or>
           Execute g \<in> set (fst (addValidator gateway js values nfdAppId activeAddress))"
  shows "\<exists>c mbrPayment nfdName config.
           makeValidatorConfig js values nfdAppId = Inr config \<and>
           g = [c] \<and> call c = addValidatorCall mbrPayment nfdName config"
  using assms unfolding addValidator_def Let_def
  by (auto split: sum.splits prod.splits simp: buildGroup_def)

lemma addValidator_encoding_throws:
  "entryGatingValueOf js values = Inl e \<Longrightarrow>
     fst (addValidator gateway js values nfdAppId activeAddress) = []"
  unfolding addValidator_def Let_def
  by (auto split: sum.splits prod.splits simp: makeValidatorConfig_def)

text \<open>
  Claim C9. Given that \<open>algosdk.decodeAddress\<close> returns keys of 32 bytes: the one call of
  every group that addValidator simulates or executes is addValidator with a config whose
  entry gating type is \<open>Number(values.entryGatingType || 0)\<close> and whose entry gating value
  is, for type 1, the 32-byte public key that \<open>decodeAddress\<close> gives for the supplied
  string, and for every other type the encoding of the number \<open>v\<close> that \<open>BigInt\<close> reads from
  the supplied string: a byte string of the fixed width whose byte \<open>i\<close> is the base-256
  digit of \<open>v\<close> of weight \<open>256 ^ (width - 1 - i)\<close>, most significant first, and which read
  big-endian is \<open>v\<close> whenever \<open>0 \<le> v < 256 ^ width\<close>. When the encoding throws, no group is
  simulated or executed.
\<close>

theorem entry_gating_value_encoding:
  assumes "\<forall>a key. decodeAddress js a = Inr key \<longrightarrow> length key = 32"
  shows
    "(\<forall>g. Simulate g \<in> set (fst (addValidator gateway js values nfdAppId activeAddress)) \<or>
          Execute g \<in> set (fst (addValidator gateway js values nfdAppId activeAddress)) \<longrightarrow>
        (\<exists>c mbrPayment nfdName config.
           g = [c] \<and> call c = addValidatorCall mbrPayment nfdName config \<and>
           entryGatingType config = entryGatingTypeOf js values \<and>
           (entryGatingTypeOf js values = Some 1 \<longrightarrow>
              decodeAddress js (ValidatorConfigInput.entryGatingValue values)
                = Inr (entryGatingValue config) \<and>
              length (entryGatingValue config) = 32) \<and>
           (entryGatingTypeOf js values \<noteq> Some 1 \<longrightarrow>
              (\<exists>s v. ValidatorConfigInput.entryGatingValue values = Some s \<and>
                 BigInt_of js s = Inr v \<and>
                 length (entryGatingValue config) = gatingValueWidth js \<and>
                 (\<forall>i < gatingValueWidth js.
                    entryGatingValue config ! i
                      = word_of_int (v div 256 ^ (gatingValueWidth js - 1 - i))) \<and>
                 (0 \<le> v \<longrightarrow> v < 256 ^ gatingValueWidth js \<longrightarrow>
                    bigEndianValue (entryGatingValue config) = v))))) \<and>
     (\<forall>e. entryGatingValueOf js values = Inl e \<longrightarrow>
        fst (addValidator gateway js values nfdAppId activeAddress) = [])"
proof (intro conjI allI impI)
  fix g
  assume "Simulate g \<in> set (fst (addValidator gateway js values nfdAppId activeAddress)) \<or>
          Execute g \<in> set (fst (addValidator gateway js values nfdAppId activeAddress))"
  then obtain c mbrPayment nfdName config
    where cfg: "makeValidatorConfig js values nfdAppId = Inr config"
      and g: "g = [c]" "call c = addValidatorCall mbrPayment nfdName config"
    using addValidator_sends_config by blast
  have val: "entryGatingValueOf js values = Inr (entryGatingValue config)"
    and ty: "entryGatingType config = entryGatingTypeOf js values"
    using makeValidatorConfig_gating[OF cfg] by simp_all
  have one: "entryGatingTypeOf js values = Some 1 \<longrightarrow>
      decodeAddress js (ValidatorConfigInput.entryGatingValue values)
        = Inr (entryGatingValue config) \<and>
      length (entryGatingValue config) = 32"
    using val assms by (auto simp: entryGatingValueOf_def)
  have other: "entryGatingTypeOf js values \<noteq> Some 1 \<longrightarrow>
      (\<exists>s v. ValidatorConfigInput.entryGatingValue values = Some s \<and>
         BigInt_of js s = Inr v \<and>
         length (entryGatingValue config) = gatingValueWidth js \<and>
         (\<forall>i < gatingValueWidth js.
            entryGatingValue config ! i
              = word_of_int (v div 256 ^ (gatingValueWidth js - 1 - i))) \<and>
         (0 \<le> v \<longrightarrow> v < 256 ^ gatingValueWidth js \<longrightarrow>
            bigEndianValue (entryGatingValue config) = v))"
  proof
    assume "entryGatingTypeOf js values \<noteq> Some 1"
    with val obtain s v where s: "ValidatorConfigInput.entryGatingValue values = Some s"
      and v: "BigInt_of js s = Inr v"
      and enc: "entryGatingValue config = gatingValueFromBigint (gatingValueWidth js) v"
      by (auto simp: entryGatingValueOf_def split: option.splits sum.splits)
    show "\<exists>s v. ValidatorConfigInput.entryGatingValue values = Some s \<and>
         BigInt_of js s = Inr v \<and>
         length (entryGatingValue config) = gatingValueWidth js \<and>
         (\<forall>i < gatingValueWidth js.
            entryGatingValue config ! i
              = word_of_int (v div 256 ^ (gatingValueWidth js - 1 - i))) \<and>
         (0 \<le> v \<longrightarrow> v < 256 ^ gatingValueWidth js \<longrightarrow>
            bigEndianValue (entryGatingValue config) = v)"
      using s v
      by (intro exI[of _ s] exI[of _ v])
         (simp add: enc length_gatingValueFromBigint nth_gatingValueFromBigint
            bigEndianValue_gatingValueFromBigint)
  qed
  show "\<exists>c mbrPayment nfdName config.
           g = [c] \<and> call c = addValidatorCall mbrPayment nfdName config \<and>
           entryGatingType config = entryGatingTypeOf js values \<and>
           (entryGatingTypeOf js values = Some 1 \<longrightarrow>
              decodeAddress js (ValidatorConfigInput.entryGatingValue values)
                = Inr (entryGatingValue config) \<and>
              length (entryGatingValue config) = 32) \<and>
           (entryGatingTypeOf js values \<noteq> Some 1 \<longrightarrow>
              (\<exists>s v. ValidatorConfigInput.entryGatingValue values = Some s \<and>
                 BigInt_of js s = Inr v \<and>
                 length (entryGatingValue config) = gatingValueWidth js \<and>
                 (\<forall>i < gatingValueWidth js.
                    entryGatingValue config ! i
                      = word_of_int (v div 256 ^ (gatingValueWidth js - 1 - i))) \<and>
                 (0 \<le> v \<longrightarrow> v < 256 ^ gatingValueWidth js \<longrightarrow>
                    bigEndianValue (entryGatingValue config) = v)))"
    using g ty one other by blast
next
  fix e
  assume "entryGatingValueOf js values = Inl e"
  then show "fst (addValidator gateway js values nfdAppId activeAddress) = []"
    by (rule addValidator_encoding_throws)
qed

text \<open>The theorem at the example inputs.\<close>

theorem entry_gating_value_encoding_witness:
  "(\<exists>c mbrPayment nfdName config.
      executedGroups (fst (addValidator exampleGateway exampleImports
                             (exampleValues ''1'' FEE_SINK) 0 ''S'')) = [[c]] \<and>
      call c = addValidatorCall mbrPayment nfdName config \<and>
      entryGatingType config = Some 1 \<and>
      entryGatingValue config = feeSinkPublicKey) \<and>
   length feeSinkPublicKey = 32 \<and>
   (\<exists>c mbrPayment nfdName config.
      executedGroups (fst (addValidator exampleGateway exampleImports
                             (exampleValues ''2'' ''1234'') 0 ''S'')) = [[c]] \<and>
      call c = addValidatorCall mbrPayment nfdName config \<and>
      entryGatingType config = Some 2 \<and>
      entryGatingValue config = [0, 0, 0, 0, 0, 0, 4, 210]) \<and>
   bigEndianValue [0, 0, 0, 0, 0, 0, 4, 210] = 1234 \<and>
   fst (addValidator exampleGateway exampleImports (exampleValues ''1'' ''1234'') 0 ''S'') = []"
proof -
  have h: "\<forall>a key. decodeAddress exampleImports a = Inr key \<longrightarrow> length key = 32"
    by (simp add: exampleImports_def feeSinkPublicKey_def)
  have e: "gatingValueFromBigint 8 1234 = [0, 0, 0, 0, 0, 0, 4, 210]"
    by code_simp
  have d: "bigEndianValue [0, 0, 0, 0, 0, 0, 4, 210] = 1234"
    by (simp add: bigEndianValue_def)
  have v1: "makeValidatorConfig exampleImports (exampleValues ''1'' FEE_SINK) 0
     = Inr \<lparr> id = 0, owner = ''OWNER'', manager = ''MANAGER'', nfdForInfo = 0,
             entryGatingType = Some 1, entryGatingValue = feeSinkPublicKey,
             otherFields = () \<rparr>"
    by (simp add: makeValidatorConfig_def entryGatingValueOf_def entryGatingTypeOf_def
          exampleImports_def exampleValues_def)
  have v3: "makeValidatorConfig exampleImports (exampleValues ''1'' ''1234'') 0
     = Inl (Thrown ''address seems to be malformed'')"
    by (simp add: makeValidatorConfig_def entryGatingValueOf_def entryGatingTypeOf_def
          exampleImports_def exampleValues_def FEE_SINK_def)
  note v2 = example_makeValidatorConfig
  show ?thesis
    using entry_gating_value_encoding [OF h, of exampleGateway "exampleValues ''1'' FEE_SINK" 0 "''S''"]
      entry_gating_value_encoding [OF h, of exampleGateway "exampleValues ''2'' ''1234''" 0 "''S''"]
      entry_gating_value_encoding [OF h, of exampleGateway "exampleValues ''1'' ''1234''" 0 "''S''"]
    by (simp add: addValidator_def v1 v2 v3 op_defs Let_def e d feeSinkPublicKey_def)
qed

end
